theory Spec2Isabelle
  imports Complex_Main "HOL-Library.AList"
begin

section \<open>Conventions\<close>

text \<open>
  JavaScript numbers are modelled by exact rationals (\<open>rat\<close>), instants (\<open>Date\<close>,
  \<open>Date.now()\<close>) by integers counting milliseconds, and strings by \<open>string\<close>.
  Every value the code obtains from its environment (the clock, a freshly generated
  session id, the answer of a network call, whether the browser accepts a write to
  \<open>localStorage\<close>) is an explicit argument of the function that models the code.
  An exception is a value \<open>Inl e\<close> of a sum type.
\<close>

section \<open>Array helpers\<close>

text \<open>\<open>Array.prototype.findIndex\<close>: the index of the first element that satisfies the
  predicate; \<open>None\<close> stands for the result \<open>-1\<close>.\<close>

fun findIndex :: "('a \<Rightarrow> bool) \<Rightarrow> 'a list \<Rightarrow> nat option" where
  "findIndex P [] = None"
| "findIndex P (x # xs) =
     (if P x then Some 0 else map_option Suc (findIndex P xs))"

text \<open>\<open>xs.splice(i, 1)\<close>: the array without the element at index \<open>i\<close>.\<close>

definition splice1 :: "nat \<Rightarrow> 'a list \<Rightarrow> 'a list" where
  "splice1 i xs = take i xs @ drop (Suc i) xs"

section \<open>The cart store (stores/cartStore, src/unnamed/part_012)\<close>

text \<open>\<open>Product.price\<close> is declared a number, but \<open>computeCartValues\<close> inspects its
  run-time type, so the three cases it distinguishes are kept.\<close>

datatype price_value = PriceNumber rat | PriceString string | PriceOther

record product =
  externalId :: string
  name :: string
  price :: price_value
  availableQuantity :: rat
  isActive :: bool

record cartItem =
  item_id :: string
  product :: product
  quantity :: rat
  addedAt :: int

record cartState =
  items :: "cartItem list"
  sessionId :: string
  isLoading :: bool
  lastUpdated :: int
  itemCount :: rat
  totalPrice :: rat

text \<open>\<open>priceValue.replace(/[^\d.,]/g, "").replace(",", ".")\<close>: keep digits, dots and
  commas, then turn the first comma into a dot. The library function \<open>parseFloat\<close> is the
  parameter \<open>pf\<close>.\<close>

fun replaceFirstComma :: "string \<Rightarrow> string" where
  "replaceFirstComma [] = []"
| "replaceFirstComma (c # cs) =
     (if c = CHR '','' then CHR ''.'' # cs else c # replaceFirstComma cs)"

definition cleanPriceString :: "string \<Rightarrow> string" where
  "cleanPriceString s =
     replaceFirstComma (filter (\<lambda>c. c \<in> set ''0123456789.,'') s)"

definition priceOf :: "(string \<Rightarrow> rat) \<Rightarrow> price_value \<Rightarrow> rat" where
  "priceOf pf pv =
     (case pv of
        PriceString s \<Rightarrow> (if s \<noteq> [] then pf (cleanPriceString s) else 0)
      | PriceNumber n \<Rightarrow> n
      | PriceOther \<Rightarrow> 0)"

text \<open>\<open>computeCartValues\<close>: two left folds (\<open>reduce\<close>) over the items.\<close>

definition computeCartValues :: "(string \<Rightarrow> rat) \<Rightarrow> cartItem list \<Rightarrow> rat \<times> rat" where
  "computeCartValues pf its =
     (fold (\<lambda>item total. total + quantity item) its 0,
      fold (\<lambda>item total. total + priceOf pf (price (product item)) * quantity item) its 0)"

text \<open>The three lines that end every mutation: compute the two values and store them
  in \<open>_itemCount\<close> and \<open>_totalPrice\<close>.\<close>

definition withComputedValues :: "(string \<Rightarrow> rat) \<Rightarrow> cartState \<Rightarrow> cartState" where
  "withComputedValues pf st =
     (case computeCartValues pf (items st) of
        (ic, tp) \<Rightarrow> st\<lparr>itemCount := ic, totalPrice := tp\<rparr>)"

text \<open>The initial state of the store; the session id and the clock value are supplied.\<close>

definition initialState :: "string \<Rightarrow> int \<Rightarrow> cartState" where
  "initialState sid now =
     \<lparr>items = [], sessionId = sid, isLoading = False, lastUpdated = now,
      itemCount = 0, totalPrice = 0\<rparr>"

text \<open>Hydration from the persisted subset (\<open>partialize\<close> keeps items, sessionId and
  lastUpdated); \<open>onRehydrateStorage\<close> recomputes the derived values.\<close>

definition rehydrate :: "(string \<Rightarrow> rat) \<Rightarrow> cartItem list \<Rightarrow> string \<Rightarrow> int \<Rightarrow> cartState" where
  "rehydrate pf its sid lu =
     withComputedValues pf
       \<lparr>items = its, sessionId = sid, isLoading = False, lastUpdated = lu,
        itemCount = 0, totalPrice = 0\<rparr>"

text \<open>JavaScript truthiness of \<open>product.price\<close>.\<close>

definition truthyPrice :: "price_value \<Rightarrow> bool" where
  "truthyPrice pv =
     (case pv of PriceNumber n \<Rightarrow> n \<noteq> 0 | PriceString s \<Rightarrow> s \<noteq> [] | PriceOther \<Rightarrow> False)"

text \<open>The product data \<open>addToCart\<close> works with: the argument, unless its price or name
  is missing and \<open>fetchProductData\<close> (the parameter \<open>fetch\<close>, \<open>None\<close> for its \<open>null\<close>)
  returns a product.\<close>

definition resolveProduct :: "(string \<Rightarrow> product option) \<Rightarrow> product \<Rightarrow> product" where
  "resolveProduct fetch p =
     (if \<not> truthyPrice (price p) \<or> name p = [] then
        (case fetch (externalId p) of Some fetched \<Rightarrow> fetched | None \<Rightarrow> p)
      else p)"

text \<open>\<open>addToCart(product, quantity = 1)\<close>; \<open>None\<close> is the omitted quantity.\<close>

definition addToCart ::
  "(string \<Rightarrow> rat) \<Rightarrow> (string \<Rightarrow> product option) \<Rightarrow> int \<Rightarrow> product \<Rightarrow> rat option \<Rightarrow>
   cartState \<Rightarrow> cartState" where
  "addToCart pf fetch now p qopt st =
     (let q = (case qopt of None \<Rightarrow> 1 | Some q' \<Rightarrow> q');
          productData = resolveProduct fetch p;
          its = items st;
          its' = (case findIndex (\<lambda>item. item_id item = externalId productData) its of
                    Some i \<Rightarrow> its[i := (its ! i)\<lparr>quantity := quantity (its ! i) + q\<rparr>]
                  | None \<Rightarrow>
                      its @ [\<lparr>item_id = externalId productData, product = productData,
                              quantity = q, addedAt = now\<rparr>])
      in withComputedValues pf (st\<lparr>items := its', lastUpdated := now, isLoading := False\<rparr>))"

definition removeFromCart :: "(string \<Rightarrow> rat) \<Rightarrow> int \<Rightarrow> string \<Rightarrow> cartState \<Rightarrow> cartState" where
  "removeFromCart pf now productId st =
     (case findIndex (\<lambda>item. item_id item = productId) (items st) of
        Some index \<Rightarrow>
          withComputedValues pf (st\<lparr>items := splice1 index (items st), lastUpdated := now\<rparr>)
      | None \<Rightarrow> st)"

definition updateQuantity ::
  "(string \<Rightarrow> rat) \<Rightarrow> int \<Rightarrow> string \<Rightarrow> rat \<Rightarrow> cartState \<Rightarrow> cartState" where
  "updateQuantity pf now productId q st =
     (if q \<le> 0 then removeFromCart pf now productId st
      else
        (case findIndex (\<lambda>item. item_id item = productId) (items st) of
           Some i \<Rightarrow>
             withComputedValues pf
               (st\<lparr>items := (items st)[i := (items st ! i)\<lparr>quantity := q\<rparr>],
                   lastUpdated := now\<rparr>)
         | None \<Rightarrow> st))"

definition clearCart :: "string \<Rightarrow> int \<Rightarrow> cartState \<Rightarrow> cartState" where
  "clearCart newSid now st =
     st\<lparr>items := [], sessionId := newSid, lastUpdated := now,
        itemCount := 0, totalPrice := 0\<rparr>"

text \<open>The states of the store: the initial or a hydrated state, followed by any sequence
  of the four mutations.\<close>

inductive reachable :: "(string \<Rightarrow> rat) \<Rightarrow> cartState \<Rightarrow> bool" for pf where
  r_init: "reachable pf (initialState sid now)"
| r_hydrate: "reachable pf (rehydrate pf its sid lu)"
| r_add: "reachable pf st \<Longrightarrow> reachable pf (addToCart pf fetch now p qopt st)"
| r_remove: "reachable pf st \<Longrightarrow> reachable pf (removeFromCart pf now productId st)"
| r_update: "reachable pf st \<Longrightarrow> reachable pf (updateQuantity pf now productId q st)"
| r_clear: "reachable pf st \<Longrightarrow> reachable pf (clearCart newSid now st)"

definition totalsConsistent :: "(string \<Rightarrow> rat) \<Rightarrow> cartState \<Rightarrow> bool" where
  "totalsConsistent pf st \<longleftrightarrow>
     itemCount st = sum_list (map quantity (items st)) \<and>
     totalPrice st =
       sum_list (map (\<lambda>item. priceOf pf (price (product item)) * quantity item) (items st))"

text \<open>\<open>validateCart\<close> of the store. The loop visits the items in order, asks
  \<open>fetchProductData\<close> for each and either records an issue or keeps the item with the
  fetched product data; the store is then overwritten with the kept items. (The
  recursion returns the two arrays in the order in which the loop pushes onto them.)\<close>

datatype storeIssue =
    NoLongerAvailable string
  | OnlyUnitsAvailable string rat
  | WasNotFound string

record storeValidation =
  sv_hasIssues :: bool
  sv_issues :: "storeIssue list"

fun validateItems ::
  "(string \<Rightarrow> product option) \<Rightarrow> cartItem list \<Rightarrow> storeIssue list \<times> cartItem list" where
  "validateItems fetch [] = ([], [])"
| "validateItems fetch (item # rest) =
     (case validateItems fetch rest of
        (issues, validatedItems) \<Rightarrow>
          (case fetch (externalId (product item)) of
             Some productData \<Rightarrow>
               (if \<not> isActive productData then
                  (NoLongerAvailable (name (product item)) # issues, validatedItems)
                else if availableQuantity productData < quantity item then
                  (OnlyUnitsAvailable (name (product item)) (availableQuantity productData)
                     # issues, validatedItems)
                else (issues, item\<lparr>product := productData\<rparr> # validatedItems))
           | None \<Rightarrow> (WasNotFound (name (product item)) # issues, validatedItems)))"

definition validateCart ::
  "(string \<Rightarrow> rat) \<Rightarrow> (string \<Rightarrow> product option) \<Rightarrow> int \<Rightarrow> cartState \<Rightarrow>
   storeValidation \<times> cartState" where
  "validateCart pf fetch now st =
     (case validateItems fetch (items st) of
        (issues, validatedItems) \<Rightarrow>
          (\<lparr>sv_hasIssues = (issues \<noteq> []), sv_issues = issues\<rparr>,
           withComputedValues pf (st\<lparr>items := validatedItems, lastUpdated := now\<rparr>)))"

text \<open>An item passes the store's validation when its product is found, active and in
  sufficient stock.\<close>

definition passesValidation :: "(string \<Rightarrow> product option) \<Rightarrow> cartItem \<Rightarrow> bool" where
  "passesValidation fetch item =
     (case fetch (externalId (product item)) of
        Some productData \<Rightarrow>
          isActive productData \<and> \<not> availableQuantity productData < quantity item
      | None \<Rightarrow> False)"

text \<open>What the store's validation keeps of an item that passes: the item with the fetched
  product data.\<close>

definition refreshProduct :: "(string \<Rightarrow> product option) \<Rightarrow> cartItem \<Rightarrow> cartItem" where
  "refreshProduct fetch item =
     (case fetch (externalId (product item)) of
        Some productData \<Rightarrow> item\<lparr>product := productData\<rparr>
      | None \<Rightarrow> item)"

section \<open>The server-side cart (convex/mutations/cart/cartOperations.ts)\<close>

datatype cartError =
    ProductNotFound
  | ProductUnavailable
  | InsufficientStock rat
  | InvalidQuantity
  | CartNotFound
  | ItemNotInCart

record catalogProduct =
  cp_price :: rat
  cp_availableQuantity :: rat
  cp_isActive :: bool

record sessionItem =
  productId :: string
  si_quantity :: rat
  unitPrice :: rat

record cartSession =
  cs_sessionId :: string
  cs_items :: "sessionItem list"
  totalItems :: rat
  totalAmount :: rat
  createdAt :: int
  updatedAt :: int

text \<open>The two tables the mutations touch. The documents of \<open>cart_sessions\<close> are kept in
  creation order; \<open>.withIndex("by_session_id", ...).first()\<close> is the first document with
  the session id, and its position stands for its \<open>_id\<close>.\<close>

record database =
  products :: "string \<Rightarrow> catalogProduct option"
  cart_sessions :: "cartSession list"

definition sessionTotals :: "sessionItem list \<Rightarrow> rat \<times> rat" where
  "sessionTotals its =
     (fold (\<lambda>item sum. sum + si_quantity item) its 0,
      fold (\<lambda>item sum. sum + si_quantity item * unitPrice item) its 0)"

text \<open>\<open>ctx.db.patch(cartSession._id, {items, totalItems, totalAmount, updatedAt})\<close>.\<close>

definition patchSession :: "nat \<Rightarrow> sessionItem list \<Rightarrow> int \<Rightarrow> database \<Rightarrow> database" where
  "patchSession cid its now db =
     (case sessionTotals its of
        (newTotalItems, newTotalValue) \<Rightarrow>
          db\<lparr>cart_sessions :=
               (cart_sessions db)[cid :=
                 (cart_sessions db ! cid)\<lparr>cs_items := its, totalItems := newTotalItems,
                    totalAmount := newTotalValue, updatedAt := now\<rparr>]\<rparr>)"

definition mutation_addToCart ::
  "int \<Rightarrow> string \<Rightarrow> string \<Rightarrow> rat \<Rightarrow> database \<Rightarrow> cartError + database" where
  "mutation_addToCart now sid pid q db =
     (case products db pid of
        None \<Rightarrow> Inl ProductNotFound
      | Some prd \<Rightarrow>
          if \<not> cp_isActive prd then Inl ProductUnavailable
          else if cp_availableQuantity prd < q then
            Inl (InsufficientStock (cp_availableQuantity prd))
          else if q \<le> 0 then Inl InvalidQuantity
          else
            (case findIndex (\<lambda>c. cs_sessionId c = sid) (cart_sessions db) of
               None \<Rightarrow>
                 Inr (db\<lparr>cart_sessions := cart_sessions db @
                        [\<lparr>cs_sessionId = sid,
                          cs_items = [\<lparr>productId = pid, si_quantity = q,
                                       unitPrice = cp_price prd\<rparr>],
                          totalItems = q, totalAmount = cp_price prd * q,
                          createdAt = now, updatedAt = now\<rparr>]\<rparr>)
             | Some cid \<Rightarrow>
                 (let its = cs_items (cart_sessions db ! cid) in
                  case findIndex (\<lambda>item. productId item = pid) its of
                    Some existingItemIndex \<Rightarrow>
                      (let existingItem = its ! existingItemIndex;
                           newQuantity = si_quantity existingItem + q
                       in if cp_availableQuantity prd < newQuantity then
                            Inl (InsufficientStock (cp_availableQuantity prd))
                          else
                            Inr (patchSession cid
                                   (its[existingItemIndex :=
                                      existingItem\<lparr>si_quantity := newQuantity,
                                        unitPrice := cp_price prd\<rparr>]) now db))
                  | None \<Rightarrow>
                      Inr (patchSession cid
                             (its @ [\<lparr>productId = pid, si_quantity = q,
                                      unitPrice = cp_price prd\<rparr>]) now db))))"

definition mutation_removeFromCart ::
  "int \<Rightarrow> string \<Rightarrow> string \<Rightarrow> database \<Rightarrow> cartError + database" where
  "mutation_removeFromCart now sid pid db =
     (case findIndex (\<lambda>c. cs_sessionId c = sid) (cart_sessions db) of
        None \<Rightarrow> Inl CartNotFound
      | Some cid \<Rightarrow>
          (let its = cs_items (cart_sessions db ! cid);
               updatedItems = filter (\<lambda>item. productId item \<noteq> pid) its
           in if length updatedItems = length its then Inl ItemNotInCart
              else Inr (patchSession cid updatedItems now db)))"

definition mutation_updateCartItemQuantity ::
  "int \<Rightarrow> string \<Rightarrow> string \<Rightarrow> rat \<Rightarrow> database \<Rightarrow> cartError + database" where
  "mutation_updateCartItemQuantity now sid pid q db =
     (if q \<le> 0 then Inl InvalidQuantity
      else
        (case products db pid of
           None \<Rightarrow> Inl ProductNotFound
         | Some prd \<Rightarrow>
             if \<not> cp_isActive prd then Inl ProductUnavailable
             else if cp_availableQuantity prd < q then
               Inl (InsufficientStock (cp_availableQuantity prd))
             else
               (case findIndex (\<lambda>c. cs_sessionId c = sid) (cart_sessions db) of
                  None \<Rightarrow> Inl CartNotFound
                | Some cid \<Rightarrow>
                    (let its = cs_items (cart_sessions db ! cid) in
                     case findIndex (\<lambda>item. productId item = pid) its of
                       None \<Rightarrow> Inl ItemNotInCart
                     | Some itemIndex \<Rightarrow>
                         Inr (patchSession cid
                                (its[itemIndex :=
                                   (its ! itemIndex)\<lparr>si_quantity := q,
                                     unitPrice := cp_price prd\<rparr>]) now db)))))"

definition mutation_clearCart :: "int \<Rightarrow> string \<Rightarrow> database \<Rightarrow> cartError + database" where
  "mutation_clearCart now sid db =
     (case findIndex (\<lambda>c. cs_sessionId c = sid) (cart_sessions db) of
        None \<Rightarrow> Inr db
      | Some cid \<Rightarrow>
          Inr (db\<lparr>cart_sessions :=
                 (cart_sessions db)[cid :=
                   (cart_sessions db ! cid)\<lparr>cs_items := [], totalItems := 0,
                      totalAmount := 0, updatedAt := now\<rparr>]\<rparr>))"

text \<open>The databases the cart mutations can produce: no cart yet, then any successful
  mutation; the catalog table may change at any time (it is written by the product
  synchronisation).\<close>

inductive db_reachable :: "database \<Rightarrow> bool" where
  d_init: "db_reachable \<lparr>products = ps, cart_sessions = []\<rparr>"
| d_catalog: "db_reachable db \<Longrightarrow> db_reachable (db\<lparr>products := ps\<rparr>)"
| d_add: "db_reachable db \<Longrightarrow> mutation_addToCart now sid pid q db = Inr db' \<Longrightarrow> db_reachable db'"
| d_remove:
    "db_reachable db \<Longrightarrow> mutation_removeFromCart now sid pid db = Inr db' \<Longrightarrow> db_reachable db'"
| d_update:
    "db_reachable db \<Longrightarrow> mutation_updateCartItemQuantity now sid pid q db = Inr db' \<Longrightarrow>
     db_reachable db'"
| d_clear: "db_reachable db \<Longrightarrow> mutation_clearCart now sid db = Inr db' \<Longrightarrow> db_reachable db'"

definition sessionTotalsConsistent :: "cartSession \<Rightarrow> bool" where
  "sessionTotalsConsistent c \<longleftrightarrow>
     totalItems c = sum_list (map si_quantity (cs_items c)) \<and>
     totalAmount c = sum_list (map (\<lambda>item. si_quantity item * unitPrice item) (cs_items c))"

definition allSessionsConsistent :: "database \<Rightarrow> bool" where
  "allSessionsConsistent db \<longleftrightarrow> (\<forall>c \<in> set (cart_sessions db). sessionTotalsConsistent c)"

section \<open>Validation in the useCartAPI hook (hooks/useProducts.ts)\<close>

text \<open>\<open>validateCart\<close> of \<open>useCartAPI\<close> reads the cart returned by the cart query
  (\<open>cartData\<close>, \<open>None\<close> while it is undefined) and the product list of the catalog hook,
  and returns its verdict. It calls no mutation and no state setter, so the function has no
  state to return. (Nothing in the body of its loop throws, so the \<open>validation_error\<close> issue
  of the \<open>catch\<close> branch does not occur.)\<close>

record normalizedProduct =
  np_externalId :: string
  np_price :: rat
  np_availableQuantity :: rat

datatype cartValidationIssue =
    product_not_found string
  | insufficient_stock string rat
  | price_changed string rat rat

record cartValidation =
  isValid :: bool
  hasIssues :: bool
  issues :: "cartValidationIssue list"

definition itemIssues :: "normalizedProduct list \<Rightarrow> sessionItem \<Rightarrow> cartValidationIssue list" where
  "itemIssues ps item =
     (case find (\<lambda>p. np_externalId p = productId item) ps of
        None \<Rightarrow> [product_not_found (productId item)]
      | Some p \<Rightarrow>
          (if np_availableQuantity p < si_quantity item
           then [insufficient_stock (productId item) (np_availableQuantity p)] else []) @
          (if \<bar>np_price p - unitPrice item\<bar> > 1 / 100
           then [price_changed (productId item) (unitPrice item) (np_price p)] else []))"

definition useCartAPI_validateCart ::
  "normalizedProduct list \<Rightarrow> sessionItem list option \<Rightarrow> cartValidation" where
  "useCartAPI_validateCart ps cartData =
     (case cartData of
        None \<Rightarrow> \<lparr>isValid = True, hasIssues = False, issues = []\<rparr>
      | Some its \<Rightarrow>
          if its = [] then \<lparr>isValid = True, hasIssues = False, issues = []\<rparr>
          else
            (let found = concat (map (itemIssues ps) its)
             in \<lparr>isValid = (found = []), hasIssues = (found \<noteq> []), issues = found\<rparr>))"

section \<open>The cache service (services/cacheService, src/unnamed/part_001)\<close>

record 'a cacheItem =
  data :: 'a
  timestamp :: int
  ttl :: int
  version :: string

record cacheConfig =
  defaultTTL :: int
  maxSize :: nat
  cfg_version :: string

text \<open>A value of \<open>localStorage\<close>: text that parses to a cache item, or text on which
  \<open>JSON.parse\<close> throws. Both tiers are association lists in insertion order, as a
  JavaScript \<open>Map\<close> and \<open>localStorage.key(i)\<close> enumerate them.\<close>

datatype 'a storedValue = Json "'a cacheItem" | Unparsable

record 'a cacheState =
  memoryCache :: "(string \<times> 'a cacheItem) list"
  localStorage :: "(string \<times> 'a storedValue) list"

text \<open>The configuration of the exported singleton.\<close>

definition singletonConfig :: cacheConfig where
  "singletonConfig = \<lparr>defaultTTL = 5 * 60 * 1000, maxSize = 100, cfg_version = ''1.0.0''\<rparr>"

definition generateKey :: "string \<Rightarrow> string \<Rightarrow> string" where
  "generateKey namespace identifier = ''cache_'' @ namespace @ ''_'' @ identifier"

definition isExpired :: "int \<Rightarrow> 'a cacheItem \<Rightarrow> bool" where
  "isExpired now item \<longleftrightarrow> now - timestamp item > ttl item"

definition isVersionValid :: "cacheConfig \<Rightarrow> 'a cacheItem \<Rightarrow> bool" where
  "isVersionValid cfg item \<longleftrightarrow> version item = cfg_version cfg"

definition getFromLocalStorage ::
  "cacheConfig \<Rightarrow> int \<Rightarrow> string \<Rightarrow> (string \<times> 'a storedValue) list \<Rightarrow>
   'a cacheItem option \<times> (string \<times> 'a storedValue) list" where
  "getFromLocalStorage cfg now key ls =
     (case map_of ls key of
        None \<Rightarrow> (None, ls)
      | Some Unparsable \<Rightarrow> (None, ls)
      | Some (Json item) \<Rightarrow>
          if \<not> isVersionValid cfg item \<or> isExpired now item
          then (None, AList.delete key ls)
          else (Some item, ls))"

text \<open>\<open>setToLocalStorage\<close>. Whether the browser accepts the write is not decided by the
  code: \<open>accepted\<close> says it. When \<open>setItem\<close> throws, the \<open>catch\<close> block begins with
  \<open>if (DEBUG) ...\<close>, and this module declares no \<open>DEBUG\<close>: evaluating it throws a
  \<open>ReferenceError\<close>, which leaves \<open>setToLocalStorage\<close> before the clean-up of expired
  entries and the second write that follow in the block, so neither happens and
  \<open>localStorage\<close> is as it was. The result is the error thrown, if any, and the storage.\<close>

datatype referenceError = DEBUG_is_not_defined

definition setToLocalStorage ::
  "bool \<Rightarrow> string \<Rightarrow> 'a cacheItem \<Rightarrow> (string \<times> 'a storedValue) list \<Rightarrow>
   referenceError option \<times> (string \<times> 'a storedValue) list" where
  "setToLocalStorage accepted key item ls =
     (if accepted then (None, AList.update key (Json item) ls)
      else (Some DEBUG_is_not_defined, ls))"

text \<open>\<open>manageMemoryCacheSize\<close>: at capacity, the entries are sorted by timestamp (the sort
  is stable) and the first \<open>\<lfloor>maxSize \<times> 0.25\<rfloor>\<close> of them are deleted.\<close>

definition manageMemoryCacheSize ::
  "cacheConfig \<Rightarrow> (string \<times> 'a cacheItem) list \<Rightarrow> (string \<times> 'a cacheItem) list" where
  "manageMemoryCacheSize cfg mem =
     (if length mem \<ge> maxSize cfg then
        (let entries = sort_key (\<lambda>e. timestamp (snd e)) mem;
             toRemove = maxSize cfg div 4
         in fold (\<lambda>e m. AList.delete (fst e) m) (take toRemove entries) mem)
      else mem)"

text \<open>\<open>get(namespace, identifier)\<close>: the value it returns (\<open>None\<close> for \<open>null\<close>) and the state
  it leaves.\<close>

definition CacheService_get ::
  "cacheConfig \<Rightarrow> int \<Rightarrow> string \<Rightarrow> string \<Rightarrow> 'a cacheState \<Rightarrow> 'a option \<times> 'a cacheState" where
  "CacheService_get cfg now namespace identifier st =
     (let key = generateKey namespace identifier;
          memoryItem = map_of (memoryCache st) key;
          memoryHit = (case memoryItem of
                         Some m \<Rightarrow> \<not> isExpired now m \<and> isVersionValid cfg m
                       | None \<Rightarrow> False)
      in if memoryHit then (map_option data memoryItem, st)
         else
           (case getFromLocalStorage cfg now key (localStorage st) of
              (Some localItem, ls) \<Rightarrow>
                (Some (data localItem),
                 st\<lparr>memoryCache := AList.update key localItem (memoryCache st),
                    localStorage := ls\<rparr>)
            | (None, ls) \<Rightarrow> (None, st\<lparr>localStorage := ls\<rparr>)))"

text \<open>\<open>set(namespace, identifier, data, ttl?)\<close>; \<open>ttl || this.config.defaultTTL\<close> takes the
  default for an omitted and for a zero \<open>ttl\<close>. The memory tier is written first, so it
  holds the entry also when the write to \<open>localStorage\<close> makes \<open>set\<close> throw. The result is
  the error \<open>set\<close> throws, if any, and the state it leaves.\<close>

definition effectiveTTL :: "cacheConfig \<Rightarrow> int option \<Rightarrow> int" where
  "effectiveTTL cfg ttlArg =
     (case ttlArg of None \<Rightarrow> defaultTTL cfg | Some t \<Rightarrow> if t = 0 then defaultTTL cfg else t)"

definition CacheService_set ::
  "cacheConfig \<Rightarrow> bool \<Rightarrow> int \<Rightarrow> string \<Rightarrow> string \<Rightarrow> 'a \<Rightarrow> int option \<Rightarrow>
   'a cacheState \<Rightarrow> referenceError option \<times> 'a cacheState" where
  "CacheService_set cfg accepted now namespace identifier d ttlArg st =
     (let key = generateKey namespace identifier;
          item = \<lparr>data = d, timestamp = now, ttl = effectiveTTL cfg ttlArg,
                  version = cfg_version cfg\<rparr>;
          mem = manageMemoryCacheSize cfg (memoryCache st)
      in case setToLocalStorage accepted key item (localStorage st) of
           (thrown, ls) \<Rightarrow>
             (thrown, \<lparr>memoryCache = AList.update key item mem, localStorage = ls\<rparr>))"

definition CacheService_remove :: "string \<Rightarrow> string \<Rightarrow> 'a cacheState \<Rightarrow> 'a cacheState" where
  "CacheService_remove namespace identifier st =
     (let key = generateKey namespace identifier
      in \<lparr>memoryCache = AList.delete key (memoryCache st),
          localStorage = AList.delete key (localStorage st)\<rparr>)"

section \<open>The in-memory cache service (src/unnamed/part_012)\<close>




section \<open>Fetching the catalog with retries (hooks/useProducts.ts, the useProductsAPI hook)\<close>

text \<open>What one call of \<open>fetch\<close> can do: answer with a status and, when the body parses, the
  \<open>dados\<close> array if there is one; be aborted by the timeout controller; or throw.\<close>

datatype 'a httpOutcome = Responded nat "'a list option" | Aborted | Threw string

text \<open>The errors the attempt throws, one constructor per message.\<close>

datatype fetchFailure =
    ServerFailure nat
  | EndpointNotFound
  | AccessDenied
  | HttpFailure nat
  | InvalidResponseFormat
  | RequestTimeout
  | OtherFailure string
  | UnknownFailure

definition fetchAttempt :: "('a \<Rightarrow> 'b) \<Rightarrow> 'a httpOutcome \<Rightarrow> fetchFailure + 'b list" where
  "fetchAttempt normalizeProduct outcome =
     (case outcome of
        Responded status body \<Rightarrow>
          if \<not> (200 \<le> status \<and> status \<le> 299) then
            (if status \<ge> 500 then Inl (ServerFailure status)
             else if status = 404 then Inl EndpointNotFound
             else if status = 403 then Inl AccessDenied
             else Inl (HttpFailure status))
          else
            (case body of
               None \<Rightarrow> Inl InvalidResponseFormat
             | Some dados \<Rightarrow> Inr (map normalizeProduct dados))
      | Aborted \<Rightarrow> Inl RequestTimeout
      | Threw msg \<Rightarrow> Inl (OtherFailure msg))"

text \<open>\<open>retryWithBackoff\<close>. \<open>fn\<close> gives the result of the call made at each attempt and
  \<open>random\<close> the value of \<open>Math.random()\<close> drawn after it. The result is what is returned or
  thrown, the number of calls made, and the delays waited between them.\<close>

function retryLoop ::
  "(nat \<Rightarrow> fetchFailure + 'b) \<Rightarrow> (nat \<Rightarrow> rat) \<Rightarrow> nat \<Rightarrow> rat \<Rightarrow> nat \<Rightarrow> fetchFailure \<Rightarrow>
   rat list \<Rightarrow> (fetchFailure + 'b) \<times> nat \<times> rat list" where
  "retryLoop fn random maxAttempts initialDelay attempt lastError waits =
     (if attempt \<le> maxAttempts then
        (case fn attempt of
           Inr v \<Rightarrow> (Inr v, attempt, waits)
         | Inl e \<Rightarrow>
             if attempt = maxAttempts then (Inl e, attempt, waits)
             else
               (let delay = initialDelay * 2 ^ (attempt - 1);
                    jitter = random attempt * (1 / 10) * delay
                in retryLoop fn random maxAttempts initialDelay (attempt + 1) e
                     (waits @ [delay + jitter])))
      else (Inl lastError, attempt - 1, waits))"
  by pat_completeness auto
termination
  by (relation "measure (\<lambda>(fn, random, maxAttempts, initialDelay, attempt, lastError, waits).
        maxAttempts + 1 - attempt)") auto

definition retryWithBackoff ::
  "(nat \<Rightarrow> fetchFailure + 'b) \<Rightarrow> (nat \<Rightarrow> rat) \<Rightarrow> nat \<Rightarrow> rat \<Rightarrow>
   (fetchFailure + 'b) \<times> nat \<times> rat list" where
  "retryWithBackoff fn random maxAttempts initialDelay =
     retryLoop fn random maxAttempts initialDelay 1 UnknownFailure []"

definition MAX_RETRY_ATTEMPTS :: nat where
  "MAX_RETRY_ATTEMPTS = 3"

definition INITIAL_RETRY_DELAY :: rat where
  "INITIAL_RETRY_DELAY = 1000"

definition fetchProductsFromAPI ::
  "('a \<Rightarrow> 'b) \<Rightarrow> (nat \<Rightarrow> 'a httpOutcome) \<Rightarrow> (nat \<Rightarrow> rat) \<Rightarrow>
   (fetchFailure + 'b list) \<times> nat \<times> rat list" where
  "fetchProductsFromAPI normalizeProduct outcomes random =
     retryWithBackoff (\<lambda>attempt. fetchAttempt normalizeProduct (outcomes attempt)) random
       MAX_RETRY_ATTEMPTS INITIAL_RETRY_DELAY"

section \<open>The retry of the paginated catalog hook (hooks/useCategoriesAPI.ts)\<close>

text \<open>The repository's other \<open>retryWithBackoff\<close>. It reads the name and the message of the
  error: an \<open>AbortError\<close>, and an error whose message contains \<open>HTTP 4\<close> but not \<open>408\<close>, is
  thrown at once. The paginated fetch reports a bad status as \<open>HTTP <status>: <statusText>\<close>.\<close>

record jsError =
  err_name :: string
  err_message :: string

text \<open>\<open>String.prototype.includes\<close>.\<close>

fun includesText :: "string \<Rightarrow> string \<Rightarrow> bool" where
  "includesText sub [] = (sub = [])"
| "includesText sub (c # cs) = (take (length sub) (c # cs) = sub \<or> includesText sub cs)"

text \<open>The decimal digits of a status code.\<close>

function decimal :: "nat \<Rightarrow> string" where
  "decimal n =
     (if n < 10 then [''0123456789'' ! n]
      else decimal (n div 10) @ [''0123456789'' ! (n mod 10)])"
  by pat_completeness auto
termination
  by (relation "measure (\<lambda>n. n)") auto

definition httpStatusError :: "nat \<Rightarrow> string \<Rightarrow> jsError" where
  "httpStatusError status statusText =
     \<lparr>err_name = ''Error'',
      err_message = ''HTTP '' @ decimal status @ '': '' @ statusText\<rparr>"

definition notRetried :: "jsError \<Rightarrow> bool" where
  "notRetried error \<longleftrightarrow>
     err_name error = ''AbortError'' \<or>
     (includesText ''HTTP 4'' (err_message error) \<and> \<not> includesText ''408'' (err_message error))"

text \<open>The loop counts attempts from 0 to \<open>maxRetries\<close>; the result is what is returned or
  thrown, the number of calls made, and the delays waited.\<close>

function retryLoopOptimized ::
  "(nat \<Rightarrow> jsError + 'b) \<Rightarrow> (nat \<Rightarrow> rat) \<Rightarrow> nat \<Rightarrow> rat \<Rightarrow> nat \<Rightarrow> jsError \<Rightarrow> rat list \<Rightarrow>
   (jsError + 'b) \<times> nat \<times> rat list" where
  "retryLoopOptimized fn random maxRetries baseDelay attempt lastError waits =
     (if attempt \<le> maxRetries then
        (case fn attempt of
           Inr v \<Rightarrow> (Inr v, attempt + 1, waits)
         | Inl error \<Rightarrow>
             if notRetried error then (Inl error, attempt + 1, waits)
             else if attempt < maxRetries then
               retryLoopOptimized fn random maxRetries baseDelay (attempt + 1) error
                 (waits @ [baseDelay * 2 ^ attempt + random attempt * 1000])
             else
               retryLoopOptimized fn random maxRetries baseDelay (attempt + 1) error waits)
      else (Inl lastError, attempt, waits))"
  by pat_completeness auto
termination
  by (relation "measure (\<lambda>(fn, random, maxRetries, baseDelay, attempt, lastError, waits).
        maxRetries + 1 - attempt)") auto

definition retryWithBackoffOptimized ::
  "(nat \<Rightarrow> jsError + 'b) \<Rightarrow> (nat \<Rightarrow> rat) \<Rightarrow> nat \<Rightarrow> rat \<Rightarrow> (jsError + 'b) \<times> nat \<times> rat list" where
  "retryWithBackoffOptimized fn random maxRetries baseDelay =
     retryLoopOptimized fn random maxRetries baseDelay 0
       \<lparr>err_name = [], err_message = []\<rparr> []"

section \<open>Loading the catalog with a cache fallback (hooks/useProducts.ts)\<close>

text \<open>The messages \<open>setError\<close> is called with: the message of the error the fetch threw,
  the message of the error the cache write threw,
  "Conectividade limitada - dados podem estar desatualizados", and
  "Sem conexao - exibindo dados salvos (podem estar desatualizados)".\<close>

datatype loadError =
    ApiFailure fetchFailure
  | CacheWriteFailure referenceError
  | LimitedConnectivity
  | OfflineShowingSaved

record 'p productsHook =
  allProducts :: "'p list"
  hook_isLoading :: bool
  hook_error :: "loadError option"

definition PRODUCTS_CACHE_KEY :: string where
  "PRODUCTS_CACHE_KEY = ''all_products''"

definition PRODUCTS_NAMESPACE :: string where
  "PRODUCTS_NAMESPACE = ''products''"

definition getCachedProducts ::
  "cacheConfig \<Rightarrow> int \<Rightarrow> 'p list cacheState \<Rightarrow> 'p list option \<times> 'p list cacheState" where
  "getCachedProducts cfg now cs = CacheService_get cfg now PRODUCTS_NAMESPACE PRODUCTS_CACHE_KEY cs"

definition setCachedProducts ::
  "cacheConfig \<Rightarrow> bool \<Rightarrow> int \<Rightarrow> 'p list \<Rightarrow> int \<Rightarrow> 'p list cacheState \<Rightarrow>
   referenceError option \<times> 'p list cacheState" where
  "setCachedProducts cfg accepted now ps cacheTTL cs =
     CacheService_set cfg accepted now PRODUCTS_NAMESPACE PRODUCTS_CACHE_KEY ps (Some cacheTTL) cs"

text \<open>\<open>getExpiredCachedProducts\<close> reads \<open>localStorage\<close> directly, under the key
  \<open>`${CACHE_NAMESPACES.PRODUCTS}:${PRODUCTS_CACHE_KEY}`\<close>.\<close>

definition expiredCacheKey :: string where
  "expiredCacheKey = PRODUCTS_NAMESPACE @ '':'' @ PRODUCTS_CACHE_KEY"

definition getExpiredCachedProducts :: "(string \<times> 'p list storedValue) list \<Rightarrow> 'p list option" where
  "getExpiredCachedProducts ls =
     (case map_of ls expiredCacheKey of
        Some (Json parsed) \<Rightarrow> Some (data parsed)
      | Some Unparsable \<Rightarrow> None
      | None \<Rightarrow> None)"

text \<open>What follows an error thrown inside the inner \<open>try\<close> of \<open>loadProducts\<close>, by the fetch
  or by the cache write after it: the inner \<open>catch\<close> looks for an expired catalog; when
  there is none it throws the error again, and the outer \<open>catch\<close> reports its message and
  looks once more.\<close>

definition afterFailure ::
  "loadError \<Rightarrow> 'p productsHook \<Rightarrow> 'p list cacheState \<Rightarrow> 'p productsHook \<times> 'p list cacheState" where
  "afterFailure thrown hook cs =
     (case getExpiredCachedProducts (localStorage cs) of
        Some ps \<Rightarrow>
          (hook\<lparr>hook_error := Some LimitedConnectivity, allProducts := ps,
                hook_isLoading := False\<rparr>, cs)
      | None \<Rightarrow>
          (case getExpiredCachedProducts (localStorage cs) of
             Some fallbackProducts \<Rightarrow>
               (hook\<lparr>allProducts := fallbackProducts,
                     hook_error := Some OfflineShowingSaved,
                     hook_isLoading := False\<rparr>, cs)
           | None \<Rightarrow> (hook\<lparr>hook_error := Some thrown, hook_isLoading := False\<rparr>, cs)))"

text \<open>\<open>loadProducts\<close>: the cache is read at time \<open>now\<close>; \<open>apiResult\<close> is what
  \<open>fetchProductsFromAPI\<close> returned or threw, and a fetched catalog is cached at time
  \<open>later\<close>. \<open>setCachedProducts\<close> is called inside the inner \<open>try\<close>, before
  \<open>setAllProducts\<close>: when it throws, the fetched catalog is not shown.\<close>

definition loadProducts ::
  "cacheConfig \<Rightarrow> bool \<Rightarrow> int \<Rightarrow> int \<Rightarrow> int \<Rightarrow> fetchFailure + 'p list \<Rightarrow>
   'p productsHook \<times> 'p list cacheState \<Rightarrow> 'p productsHook \<times> 'p list cacheState" where
  "loadProducts cfg accepted now later cacheTTL apiResult s =
     (let hook = (fst s)\<lparr>hook_isLoading := True, hook_error := None\<rparr>
      in case getCachedProducts cfg now (snd s) of
           (Some ps, cs) \<Rightarrow> (hook\<lparr>allProducts := ps, hook_isLoading := False\<rparr>, cs)
         | (None, cs) \<Rightarrow>
             (case apiResult of
                Inr ps \<Rightarrow>
                  (case setCachedProducts cfg accepted later ps cacheTTL cs of
                     (None, cs') \<Rightarrow> (hook\<lparr>allProducts := ps, hook_isLoading := False\<rparr>, cs')
                   | (Some thrown, cs') \<Rightarrow> afterFailure (CacheWriteFailure thrown) hook cs')
              | Inl apiError \<Rightarrow> afterFailure (ApiFailure apiError) hook cs))"

section \<open>Synchronising the cart between tabs (hooks/useCartSync.ts)\<close>

text \<open>The record zustand persists under \<open>cart-storage\<close>, as the other tab finds it: the
  item is missing, does not parse, parses without a \<open>state\<close>, or parses to a state whose
  fields may be absent.\<close>

record persistedCart =
  p_items :: "cartItem list option"
  p_sessionId :: "string option"
  p_lastUpdated :: "int option"

datatype storedCart = Missing | Corrupt | WithoutState | WithState persistedCart

text \<open>The data of a \<open>CART_UPDATED\<close> message: the sender's \<open>lastUpdated\<close> (an ISO date, here
  its time value) and the time of sending.\<close>

record cartUpdatedMessage =
  msg_lastUpdated :: int
  msg_timestamp :: int

text \<open>A tab: its store and the two refs of the hook (\<open>lastSyncTimestampRef\<close>, respectively
  \<open>lastProcessedTimestampRef\<close>, and \<open>isUpdatingRef\<close>).\<close>

record syncContext =
  cart :: cartState
  lastSyncTimestamp :: int
  isUpdating :: bool

definition hasChanges :: "cartState \<Rightarrow> persistedCart \<Rightarrow> bool" where
  "hasChanges currentState newState \<longleftrightarrow>
     p_items newState \<noteq> Some (items currentState) \<or>
     p_sessionId newState \<noteq> Some (sessionId currentState)"

text \<open>\<open>useCartStore.setState({items, sessionId, lastUpdated})\<close> with the fallbacks of the
  \<open>||\<close> operators.\<close>

definition commitRemote :: "int \<Rightarrow> persistedCart \<Rightarrow> cartState \<Rightarrow> cartState" where
  "commitRemote now newState currentState =
     currentState
       \<lparr>items := (case p_items newState of Some its \<Rightarrow> its | None \<Rightarrow> []),
        sessionId := (case p_sessionId newState of
                        Some s \<Rightarrow> if s \<noteq> [] then s else sessionId currentState
                      | None \<Rightarrow> sessionId currentState),
        lastUpdated := (case p_lastUpdated newState of Some t \<Rightarrow> t | None \<Rightarrow> now)\<rparr>"

text \<open>The body of the timer set by \<open>debouncedUpdate\<close>, run for a message while
  \<open>cart-storage\<close> holds \<open>stored\<close>.\<close>

definition applyCartUpdated ::
  "int \<Rightarrow> storedCart \<Rightarrow> cartUpdatedMessage \<Rightarrow> syncContext \<Rightarrow> syncContext" where
  "applyCartUpdated now stored msg ctx =
     (if isUpdating ctx then ctx
      else
        (let currentState = cart ctx;
             newTimestamp = msg_lastUpdated msg;
             currentTimestamp = lastUpdated currentState
         in if newTimestamp \<le> currentTimestamp \<or> newTimestamp \<le> lastSyncTimestamp ctx then ctx
            else
              (case stored of
                 Missing \<Rightarrow> ctx
               | Corrupt \<Rightarrow> ctx\<lparr>isUpdating := False\<rparr>
               | WithoutState \<Rightarrow> ctx
               | WithState newState \<Rightarrow>
                   if \<not> hasChanges currentState newState then ctx
                   else
                     ctx\<lparr>isUpdating := True, lastSyncTimestamp := newTimestamp,
                         cart := commitRemote now newState currentState\<rparr>)))"

text \<open>The body of the timer set by \<open>debouncedStorageUpdate\<close>, run for the new value of
  \<open>cart-storage\<close> carried by a storage event.\<close>

definition applyStorageChange :: "int \<Rightarrow> storedCart \<Rightarrow> syncContext \<Rightarrow> syncContext" where
  "applyStorageChange now newValue ctx =
     (if isUpdating ctx then ctx
      else
        (case newValue of
           Missing \<Rightarrow> ctx
         | Corrupt \<Rightarrow> ctx\<lparr>isUpdating := False\<rparr>
         | WithoutState \<Rightarrow> ctx
         | WithState newState \<Rightarrow>
             (let currentState = cart ctx;
                  newTimestamp = (case p_lastUpdated newState of Some t \<Rightarrow> t | None \<Rightarrow> 0);
                  currentTimestamp = lastUpdated currentState
              in if newTimestamp \<le> currentTimestamp \<or> newTimestamp \<le> lastSyncTimestamp ctx
                 then ctx
                 else if \<not> hasChanges currentState newState then ctx
                 else
                   ctx\<lparr>isUpdating := True, lastSyncTimestamp := newTimestamp,
                       cart := commitRemote now newState currentState\<rparr>)))"

text \<open>The timer that resets the guard 100 ms after a remote update was committed.\<close>

definition resetUpdating :: "syncContext \<Rightarrow> syncContext" where
  "resetUpdating ctx = ctx\<lparr>isUpdating := False\<rparr>"

section \<open>Example data\<close>

text \<open>Product \<open>A\<close> as the store receives it, and the catalog table with \<open>A\<close> at the price
  10 and at the price 12.\<close>

definition productA :: product where
  "productA = \<lparr>externalId = ''A'', name = ''Produto A'', price = PriceNumber 10,
                availableQuantity = 100, isActive = True\<rparr>"

definition catalogA :: "string \<Rightarrow> catalogProduct option" where
  "catalogA = (\<lambda>k. if k = ''A'' then
      Some \<lparr>cp_price = 10, cp_availableQuantity = 100, cp_isActive = True\<rparr> else None)"

definition catalogA12 :: "string \<Rightarrow> catalogProduct option" where
  "catalogA12 = (\<lambda>k. if k = ''A'' then
      Some \<lparr>cp_price = 12, cp_availableQuantity = 100, cp_isActive = True\<rparr> else None)"

text \<open>A cart session of session \<open>s1\<close> that holds product \<open>A\<close> only.\<close>

definition sessionWithA :: "rat \<Rightarrow> rat \<Rightarrow> int \<Rightarrow> cartSession" where
  "sessionWithA q p upd =
     \<lparr>cs_sessionId = ''s1'',
      cs_items = [\<lparr>productId = ''A'', si_quantity = q, unitPrice = p\<rparr>],
      totalItems = q, totalAmount = p * q, createdAt = 1, updatedAt = upd\<rparr>"

text \<open>A catalog answer in which product \<open>A\<close> has been deactivated, and a store state
  that holds two units of \<open>A\<close>.\<close>

definition inactiveA :: "string \<Rightarrow> product option" where
  "inactiveA = (\<lambda>k. if k = ''A'' then Some (productA\<lparr>isActive := False\<rparr>) else None)"

definition cartWithA :: cartState where
  "cartWithA = \<lparr>items = [\<lparr>item_id = ''A'', product = productA, quantity = 2, addedAt = 1\<rparr>],
     sessionId = ''s1'', isLoading = False, lastUpdated = 1, itemCount = 2, totalPrice = 20\<rparr>"


text \<open>A cache whose only entry is the catalog written at time 0 with a time to live of
  300000 ms, and the state of the catalog hook before its first load.\<close>

definition expiredOnly :: "string list cacheState" where
  "expiredOnly = \<lparr>memoryCache = [],
     localStorage = [(''cache_products_all_products'',
        Json \<lparr>data = [''p1'', ''p2''], timestamp = 0, ttl = 300000, version = ''1.0.0''\<rparr>)]\<rparr>"

definition freshHook :: "string productsHook" where
  "freshHook = \<lparr>allProducts = [], hook_isLoading = True, hook_error = None\<rparr>"

text \<open>A tab that holds two units of \<open>A\<close> (last updated at time 1), the record another tab
  persisted after emptying its cart at time 9, and the messages announcing the two
  states.\<close>

definition tabWithA :: syncContext where
  "tabWithA = \<lparr>cart = cartWithA, lastSyncTimestamp = 0, isUpdating = False\<rparr>"

definition emptiedAt9 :: persistedCart where
  "emptiedAt9 = \<lparr>p_items = Some [], p_sessionId = Some ''s1'', p_lastUpdated = Some 9\<rparr>"

definition messageAt1 :: cartUpdatedMessage where
  "messageAt1 = \<lparr>msg_lastUpdated = 1, msg_timestamp = 1\<rparr>"

definition messageAt9 :: cartUpdatedMessage where
  "messageAt9 = \<lparr>msg_lastUpdated = 9, msg_timestamp = 10\<rparr>"

text \<open>The tab after it has taken over the emptied cart.\<close>

definition tabEmptied :: syncContext where
  "tabEmptied =
     \<lparr>cart = \<lparr>items = [], sessionId = ''s1'', isLoading = False, lastUpdated = 9,
               itemCount = 2, totalPrice = 20\<rparr>,
      lastSyncTimestamp = 9, isUpdating = True\<rparr>"

section \<open>Facts about the cart store\<close>

lemma fold_add_sum_list:
  "fold (\<lambda>x (total::rat). total + f x) xs a = a + sum_list (map f xs)"
  by (induction xs arbitrary: a) (simp_all add: add.assoc)

lemma computeCartValues_sums:
  "computeCartValues pf its =
     (sum_list (map quantity its),
      sum_list (map (\<lambda>item. priceOf pf (price (product item)) * quantity item) its))"
  by (simp add: computeCartValues_def fold_add_sum_list)

lemma totalsConsistent_withComputedValues:
  "totalsConsistent pf (withComputedValues pf st)"
  by (simp add: totalsConsistent_def withComputedValues_def computeCartValues_sums)

lemma totalsConsistent_initialState: "totalsConsistent pf (initialState sid now)"
  by (simp add: totalsConsistent_def initialState_def)

lemma totalsConsistent_rehydrate: "totalsConsistent pf (rehydrate pf its sid lu)"
  by (simp add: rehydrate_def totalsConsistent_withComputedValues)

lemma totalsConsistent_addToCart: "totalsConsistent pf (addToCart pf fetch now p qopt st)"
  by (simp add: addToCart_def Let_def totalsConsistent_withComputedValues)

lemma totalsConsistent_removeFromCart:
  "totalsConsistent pf st \<Longrightarrow> totalsConsistent pf (removeFromCart pf now pid st)"
  by (simp add: removeFromCart_def totalsConsistent_withComputedValues split: option.splits)

lemma totalsConsistent_updateQuantity:
  "totalsConsistent pf st \<Longrightarrow> totalsConsistent pf (updateQuantity pf now pid q st)"
  by (simp add: updateQuantity_def totalsConsistent_removeFromCart
      totalsConsistent_withComputedValues split: option.splits)

lemma totalsConsistent_clearCart: "totalsConsistent pf (clearCart newSid now st)"
  by (simp add: totalsConsistent_def clearCart_def)

lemma reachable_totalsConsistent: "reachable pf st \<Longrightarrow> totalsConsistent pf st"
proof (induction rule: reachable.induct)
  case (r_init sid now)
  show ?case by (rule totalsConsistent_initialState)
next
  case (r_hydrate its sid lu)
  show ?case by (rule totalsConsistent_rehydrate)
next
  case (r_add st fetch now p qopt)
  show ?case by (rule totalsConsistent_addToCart)
next
  case (r_remove st now pid)
  then show ?case by (simp add: totalsConsistent_removeFromCart)
next
  case (r_update st now pid q)
  then show ?case by (simp add: totalsConsistent_updateQuantity)
next
  case (r_clear st newSid now)
  show ?case by (rule totalsConsistent_clearCart)
qed

lemma findIndex_Some:
  "findIndex P xs = Some i \<Longrightarrow> i < length xs \<and> P (xs ! i)"
  by (induction xs arbitrary: i) (auto split: if_splits)

lemma findIndex_None: "findIndex P xs = None \<longleftrightarrow> (\<forall>x \<in> set xs. \<not> P x)"
  by (induction xs) auto

lemma sessionTotals_sums:
  "sessionTotals its =
     (sum_list (map si_quantity its),
      sum_list (map (\<lambda>item. si_quantity item * unitPrice item) its))"
  by (simp add: sessionTotals_def fold_add_sum_list)

lemma allSessionsConsistent_patchSession:
  "allSessionsConsistent db \<Longrightarrow> allSessionsConsistent (patchSession cid its now db)"
  unfolding allSessionsConsistent_def patchSession_def sessionTotals_sums
  by (auto simp: sessionTotalsConsistent_def dest!: set_update_subset_insert [THEN subsetD])

lemma allSessionsConsistent_add:
  "allSessionsConsistent db \<Longrightarrow> mutation_addToCart now sid pid q db = Inr db' \<Longrightarrow>
   allSessionsConsistent db'"
  unfolding mutation_addToCart_def
  by (auto simp: Let_def allSessionsConsistent_patchSession
      split: option.splits if_splits)
     (auto simp: allSessionsConsistent_def sessionTotalsConsistent_def)

lemma allSessionsConsistent_remove:
  "allSessionsConsistent db \<Longrightarrow> mutation_removeFromCart now sid pid db = Inr db' \<Longrightarrow>
   allSessionsConsistent db'"
  unfolding mutation_removeFromCart_def
  by (auto simp: Let_def allSessionsConsistent_patchSession split: option.splits if_splits)

lemma allSessionsConsistent_update:
  "allSessionsConsistent db \<Longrightarrow> mutation_updateCartItemQuantity now sid pid q db = Inr db' \<Longrightarrow>
   allSessionsConsistent db'"
  unfolding mutation_updateCartItemQuantity_def
  by (auto simp: Let_def allSessionsConsistent_patchSession split: option.splits if_splits)

lemma allSessionsConsistent_clear:
  "allSessionsConsistent db \<Longrightarrow> mutation_clearCart now sid db = Inr db' \<Longrightarrow>
   allSessionsConsistent db'"
  unfolding mutation_clearCart_def
  by (auto simp: allSessionsConsistent_def sessionTotalsConsistent_def
      split: option.splits dest!: set_update_subset_insert [THEN subsetD])

lemma db_reachable_consistent: "db_reachable db \<Longrightarrow> allSessionsConsistent db"
proof (induction rule: db_reachable.induct)
  case (d_init ps)
  show ?case by (simp add: allSessionsConsistent_def)
next
  case (d_catalog db ps)
  then show ?case by (simp add: allSessionsConsistent_def)
next
  case (d_add db now sid pid q db')
  then show ?case by (blast intro: allSessionsConsistent_add)
next
  case (d_remove db now sid pid db')
  then show ?case by (blast intro: allSessionsConsistent_remove)
next
  case (d_update db now sid pid q db')
  then show ?case by (blast intro: allSessionsConsistent_update)
next
  case (d_clear db now sid db')
  then show ?case by (blast intro: allSessionsConsistent_clear)
qed

text \<open>The example cart, step by step.\<close>

lemma ex_add1: "mutation_addToCart 1 ''s1'' ''A'' 2 \<lparr>products = catalogA, cart_sessions = []\<rparr>
   = Inr \<lparr>products = catalogA, cart_sessions = [sessionWithA 2 10 1]\<rparr>"
  by (simp add: mutation_addToCart_def catalogA_def sessionWithA_def)

lemma ex_add2: "mutation_addToCart 2 ''s1'' ''A'' 3 \<lparr>products = catalogA, cart_sessions = [sessionWithA 2 10 1]\<rparr>
   = Inr \<lparr>products = catalogA, cart_sessions = [sessionWithA 5 10 2]\<rparr>"
  by (simp add: mutation_addToCart_def catalogA_def sessionWithA_def patchSession_def sessionTotals_def)

lemma ex_item: "items (addToCart pf fetch 1 productA (Some 2) (initialState ''s1'' 0)) =
   [\<lparr>item_id = ''A'', product = productA, quantity = 2, addedAt = 1\<rparr>]"
  by (simp add: addToCart_def initialState_def productA_def resolveProduct_def truthyPrice_def Let_def withComputedValues_def computeCartValues_def)

section \<open>Derived totals\<close>

text \<open>
  Claim C1. In every state of the cart store that the mutations \<open>addToCart\<close>,
  \<open>removeFromCart\<close>, \<open>updateQuantity\<close> and \<open>clearCart\<close> can reach, the item count is the
  sum of the quantities and the total price is the sum of unit price times quantity; in
  every database that the server-side cart mutations can reach, every cart session's
  \<open>totalItems\<close> and \<open>totalAmount\<close> are these sums over its items.
\<close>

theorem cart_totals_invariant:
  "(reachable pf st \<longrightarrow> totalsConsistent pf st) \<and>
   (db_reachable db \<longrightarrow> (\<forall>c \<in> set (cart_sessions db). sessionTotalsConsistent c))"
  using reachable_totalsConsistent [of pf st] db_reachable_consistent [of db]
  by (simp add: allSessionsConsistent_def)

theorem cart_totals_invariant_witness:
  "reachable (\<lambda>s. 0) (addToCart (\<lambda>s. 0) (\<lambda>k. None) 1 productA (Some 2) (initialState ''s1'' 0)) \<and>
   totalPrice (addToCart (\<lambda>s. 0) (\<lambda>k. None) 1 productA (Some 2) (initialState ''s1'' 0)) = 20 \<and>
   itemCount (addToCart (\<lambda>s. 0) (\<lambda>k. None) 1 productA (Some 2) (initialState ''s1'' 0)) = 2 \<and>
   db_reachable \<lparr>products = catalogA, cart_sessions = [sessionWithA 2 10 1]\<rparr> \<and>
   sessionTotalsConsistent (sessionWithA 2 10 1)"
proof -
  let ?st = "addToCart (\<lambda>s. 0) (\<lambda>k. None) 1 productA (Some 2) (initialState ''s1'' 0)"
  let ?db = "\<lparr>products = catalogA, cart_sessions = [sessionWithA 2 10 1]\<rparr>"
  have r: "reachable (\<lambda>s. 0) ?st"
    by (intro reachable.intros)
  have d: "db_reachable ?db"
    by (rule d_add [OF d_init ex_add1])
  have its: "items ?st = [\<lparr>item_id = ''A'', product = productA, quantity = 2, addedAt = 1\<rparr>]"
    by (rule ex_item)
  from cart_totals_invariant [of "\<lambda>s. 0" ?st ?db] r d
  have "totalsConsistent (\<lambda>s. 0) ?st" and s: "\<forall>c \<in> set (cart_sessions ?db). sessionTotalsConsistent c"
    by simp_all
  then have "totalPrice ?st = 20" "itemCount ?st = 2"
    unfolding totalsConsistent_def its by (simp_all add: priceOf_def productA_def)
  moreover from s have "sessionTotalsConsistent (sessionWithA 2 10 1)" by simp
  ultimately show ?thesis using r d by simp
qed

section \<open>Server-side mutations on an item already in the cart\<close>

lemma patchSession_items:
  "cid < length (cart_sessions db) \<Longrightarrow>
   cs_items (cart_sessions (patchSession cid its now db) ! cid) = its"
  by (simp add: patchSession_def split: prod.splits)

lemma mutation_addToCart_existing:
  assumes "mutation_addToCart t s pid n db = Inr db'"
    and "findIndex (\<lambda>c. cs_sessionId c = s) (cart_sessions db) = Some cid"
    and "findIndex (\<lambda>item. productId item = pid) (cs_items (cart_sessions db ! cid)) = Some j"
  shows "\<exists>prd. products db pid = Some prd \<and>
           cs_items (cart_sessions db' ! cid) =
            (cs_items (cart_sessions db ! cid))[j :=
               (cs_items (cart_sessions db ! cid) ! j)\<lparr>si_quantity :=
                  si_quantity (cs_items (cart_sessions db ! cid) ! j) + n,
                  unitPrice := cp_price prd\<rparr>]"
proof -
  from assms(2) have "cid < length (cart_sessions db)"
    by (simp add: findIndex_Some)
  with assms show ?thesis
    by (auto simp: mutation_addToCart_def Let_def patchSession_items
        split: option.splits if_splits)
qed

lemma mutation_updateCartItemQuantity_success:
  assumes "mutation_updateCartItemQuantity t s pid n db = Inr db'"
  shows "\<exists>prd cid j. products db pid = Some prd \<and>
           findIndex (\<lambda>c. cs_sessionId c = s) (cart_sessions db) = Some cid \<and>
           findIndex (\<lambda>item. productId item = pid) (cs_items (cart_sessions db ! cid)) = Some j \<and>
           cs_items (cart_sessions db' ! cid) =
            (cs_items (cart_sessions db ! cid))[j :=
               (cs_items (cart_sessions db ! cid) ! j)\<lparr>si_quantity := n,
                  unitPrice := cp_price prd\<rparr>]"
  using assms
  by (auto simp: mutation_updateCartItemQuantity_def Let_def patchSession_items
      findIndex_Some split: option.splits if_splits)

lemma ex_remove:
  "mutation_removeFromCart 2 ''s1'' ''A''
     \<lparr>products = catalogA, cart_sessions = [sessionWithA 2 10 1]\<rparr> =
   Inr \<lparr>products = catalogA,
        cart_sessions = [\<lparr>cs_sessionId = ''s1'', cs_items = [], totalItems = 0,
                          totalAmount = 0, createdAt = 1, updatedAt = 2\<rparr>]\<rparr>"
  by (simp add: mutation_removeFromCart_def sessionWithA_def patchSession_def sessionTotals_def)

section \<open>Updating a quantity to zero or less\<close>

text \<open>
  Claim C4, as amended. In the cart store, \<open>updateQuantity\<close> with a quantity of zero or less
  yields exactly the state that \<open>removeFromCart\<close> yields for the same product id. The
  server-side mutation \<open>updateCartItemQuantity\<close> does not: it rejects such a quantity with the
  error "Quantidade deve ser maior que zero" before it reads the cart.
\<close>

theorem updateQuantity_nonpositive:
  "q \<le> 0 \<Longrightarrow>
     updateQuantity pf now pid q st = removeFromCart pf now pid st \<and>
     mutation_updateCartItemQuantity t sid pid q db = Inl InvalidQuantity"
  by (simp add: updateQuantity_def mutation_updateCartItemQuantity_def)

text \<open>The claim as stated fails on the server-side cart: with product \<open>A\<close> in the cart,
  updating its quantity to 0 is an error, while removing it succeeds and empties the
  cart.\<close>

theorem updateQuantity_zero_counterexample:
  "mutation_updateCartItemQuantity 2 ''s1'' ''A'' 0
     \<lparr>products = catalogA, cart_sessions = [sessionWithA 2 10 1]\<rparr> = Inl InvalidQuantity \<and>
   mutation_removeFromCart 2 ''s1'' ''A''
     \<lparr>products = catalogA, cart_sessions = [sessionWithA 2 10 1]\<rparr> =
   Inr \<lparr>products = catalogA,
        cart_sessions = [\<lparr>cs_sessionId = ''s1'', cs_items = [], totalItems = 0,
                          totalAmount = 0, createdAt = 1, updatedAt = 2\<rparr>]\<rparr>"
  by (simp add: mutation_updateCartItemQuantity_def ex_remove)

theorem updateQuantity_nonpositive_witness:
  "(0::rat) \<le> 0 \<and>
   updateQuantity (\<lambda>s. 0) 5 ''A'' 0
     (addToCart (\<lambda>s. 0) (\<lambda>k. None) 1 productA (Some 2) (initialState ''s1'' 0))
     = removeFromCart (\<lambda>s. 0) 5 ''A''
         (addToCart (\<lambda>s. 0) (\<lambda>k. None) 1 productA (Some 2) (initialState ''s1'' 0)) \<and>
   items (updateQuantity (\<lambda>s. 0) 5 ''A'' 0
     (addToCart (\<lambda>s. 0) (\<lambda>k. None) 1 productA (Some 2) (initialState ''s1'' 0))) = [] \<and>
   mutation_updateCartItemQuantity 2 ''s1'' ''A'' 0
     \<lparr>products = catalogA, cart_sessions = [sessionWithA 2 10 1]\<rparr> = Inl InvalidQuantity"
proof -
  let ?st = "addToCart (\<lambda>s. 0) (\<lambda>k. None) 1 productA (Some 2) (initialState ''s1'' 0)"
  have h: "(0::rat) \<le> 0" by simp
  note t = updateQuantity_nonpositive [OF h, of "\<lambda>s. 0" 5 "''A''" ?st 2 "''s1''"
      "\<lparr>products = catalogA, cart_sessions = [sessionWithA 2 10 1]\<rparr>"]
  have "items (removeFromCart (\<lambda>s. 0) 5 ''A'' ?st) = []"
    by (simp add: removeFromCart_def ex_item splice1_def withComputedValues_def
        computeCartValues_def)
  with t show ?thesis by simp
qed

section \<open>Removing an item that is not in the cart\<close>

text \<open>
  Claim C7, as amended. In the cart store, \<open>removeFromCart\<close> with a product id that no item
  carries returns the state it was given: items, totals, session id and timestamp are
  untouched and nothing is raised. The server-side mutation \<open>removeFromCart\<close> does not: when
  the session's cart holds no item with the product id it fails with
  "Item nao encontrado no carrinho", and when the session has no cart it fails with
  "Carrinho nao encontrado".
\<close>

theorem removeItem_absent:
  "(pid \<notin> set (map item_id (items st)) \<longrightarrow> removeFromCart pf now pid st = st) \<and>
   (findIndex (\<lambda>c. cs_sessionId c = sid) (cart_sessions db) = Some cid \<and>
    pid \<notin> set (map productId (cs_items (cart_sessions db ! cid))) \<longrightarrow>
      mutation_removeFromCart t sid pid db = Inl ItemNotInCart) \<and>
   (findIndex (\<lambda>c. cs_sessionId c = sid') (cart_sessions db') = None \<longrightarrow>
      mutation_removeFromCart t sid' pid db' = Inl CartNotFound)"
proof (intro conjI impI)
  assume "pid \<notin> set (map item_id (items st))"
  then have "findIndex (\<lambda>item. item_id item = pid) (items st) = None"
    by (auto simp: findIndex_None)
  then show "removeFromCart pf now pid st = st"
    by (simp add: removeFromCart_def)
next
  assume h: "findIndex (\<lambda>c. cs_sessionId c = sid) (cart_sessions db) = Some cid \<and>
    pid \<notin> set (map productId (cs_items (cart_sessions db ! cid)))"
  then have "filter (\<lambda>item. productId item \<noteq> pid) (cs_items (cart_sessions db ! cid)) =
      cs_items (cart_sessions db ! cid)"
    by (auto simp: filter_id_conv)
  with h show "mutation_removeFromCart t sid pid db = Inl ItemNotInCart"
    by (simp add: mutation_removeFromCart_def)
next
  assume "findIndex (\<lambda>c. cs_sessionId c = sid') (cart_sessions db') = None"
  then show "mutation_removeFromCart t sid' pid db' = Inl CartNotFound"
    by (simp add: mutation_removeFromCart_def)
qed

text \<open>The claim as stated fails on the server-side cart: removing product \<open>B\<close> from a
  cart that holds only \<open>A\<close> raises an error.\<close>

theorem removeItem_absent_counterexample:
  "mutation_removeFromCart 2 ''s1'' ''B''
     \<lparr>products = catalogA, cart_sessions = [sessionWithA 2 10 1]\<rparr> = Inl ItemNotInCart"
  by (simp add: mutation_removeFromCart_def sessionWithA_def)

theorem removeItem_absent_witness:
  "''B'' \<notin> set (map item_id
      (items (addToCart (\<lambda>s. 0) (\<lambda>k. None) 1 productA (Some 2) (initialState ''s1'' 0)))) \<and>
   removeFromCart (\<lambda>s. 0) 5 ''B''
     (addToCart (\<lambda>s. 0) (\<lambda>k. None) 1 productA (Some 2) (initialState ''s1'' 0)) =
   addToCart (\<lambda>s. 0) (\<lambda>k. None) 1 productA (Some 2) (initialState ''s1'' 0) \<and>
   findIndex (\<lambda>c. cs_sessionId c = ''s1'') [sessionWithA 2 10 1] = Some 0 \<and>
   ''B'' \<notin> set (map productId (cs_items ([sessionWithA 2 10 1] ! 0))) \<and>
   mutation_removeFromCart 2 ''s1'' ''B''
     \<lparr>products = catalogA, cart_sessions = [sessionWithA 2 10 1]\<rparr> = Inl ItemNotInCart \<and>
   findIndex (\<lambda>c. cs_sessionId c = ''s2'') [sessionWithA 2 10 1] = None \<and>
   mutation_removeFromCart 2 ''s2'' ''B''
     \<lparr>products = catalogA, cart_sessions = [sessionWithA 2 10 1]\<rparr> = Inl CartNotFound"
proof -
  let ?st = "addToCart (\<lambda>s. 0) (\<lambda>k. None) 1 productA (Some 2) (initialState ''s1'' 0)"
  let ?db = "\<lparr>products = catalogA, cart_sessions = [sessionWithA 2 10 1]\<rparr>"
  have a: "''B'' \<notin> set (map item_id (items ?st))"
    by (simp add: ex_item)
  have b: "findIndex (\<lambda>c. cs_sessionId c = ''s1'') (cart_sessions ?db) = Some 0"
    by (simp add: sessionWithA_def)
  have c: "''B'' \<notin> set (map productId (cs_items (cart_sessions ?db ! 0)))"
    by (simp add: sessionWithA_def)
  have d: "findIndex (\<lambda>c. cs_sessionId c = ''s2'') (cart_sessions ?db) = None"
    by (simp add: sessionWithA_def)
  from removeItem_absent [where pid = "''B''" and st = ?st and pf = "\<lambda>s. 0" and now = 5
      and sid = "''s1''" and db = ?db and cid = 0 and t = 2 and sid' = "''s2''" and db' = ?db]
    a b c d
  have "removeFromCart (\<lambda>s. 0) 5 ''B'' ?st = ?st"
    and "mutation_removeFromCart 2 ''s1'' ''B'' ?db = Inl ItemNotInCart"
    and "mutation_removeFromCart 2 ''s2'' ''B'' ?db = Inl CartNotFound"
    by blast+
  with a b c d show ?thesis by simp
qed

section \<open>Adding a product that is already in the cart\<close>

text \<open>
  Claim C9. Starting from the empty cart, adding product \<open>A\<close> (price 10, and with a name,
  so that the store does not fetch the product again) with quantity 2 and then again
  with quantity 3 leaves exactly one item, with id \<open>A\<close> and quantity 5, and a total price
  of 50. In general, adding a product whose id is already in the cart adds the
  quantity to the existing item and inserts nothing: in the cart store the item list is
  the old one with that item's quantity increased, and a successful server-side
  \<open>addToCart\<close> keeps the number of items and increases the stored quantity.
\<close>

theorem addToCart_accumulates:
  "items (addToCart pf fetch t2 productA (Some 3)
            (addToCart pf fetch t1 productA (Some 2) (initialState sid t0))) =
     [\<lparr>item_id = ''A'', product = productA, quantity = 5, addedAt = t1\<rparr>] \<and>
   totalPrice (addToCart pf fetch t2 productA (Some 3)
            (addToCart pf fetch t1 productA (Some 2) (initialState sid t0))) = 50 \<and>
   (findIndex (\<lambda>item. item_id item = externalId (resolveProduct fetch p)) (items st) = Some i \<longrightarrow>
      items (addToCart pf fetch now p (Some q) st) =
        (items st)[i := (items st ! i)\<lparr>quantity := quantity (items st ! i) + q\<rparr>]) \<and>
   (findIndex (\<lambda>c. cs_sessionId c = s) (cart_sessions db) = Some cid \<and>
    findIndex (\<lambda>item. productId item = pid) (cs_items (cart_sessions db ! cid)) = Some j \<and>
    mutation_addToCart t s pid n db = Inr db' \<longrightarrow>
      length (cs_items (cart_sessions db' ! cid)) = length (cs_items (cart_sessions db ! cid)) \<and>
      si_quantity (cs_items (cart_sessions db' ! cid) ! j) =
        si_quantity (cs_items (cart_sessions db ! cid) ! j) + n \<and>
      productId (cs_items (cart_sessions db' ! cid) ! j) = pid)"
proof (intro conjI)
  have r: "resolveProduct fetch productA = productA"
    by (simp add: resolveProduct_def productA_def truthyPrice_def)
  have its1: "items (addToCart pf fetch t1 productA (Some 2) (initialState sid t0)) =
      [\<lparr>item_id = ''A'', product = productA, quantity = 2, addedAt = t1\<rparr>]"
    by (simp add: addToCart_def r Let_def initialState_def withComputedValues_def
        computeCartValues_def) (simp add: productA_def)
  have eA: "externalId productA = ''A''" by (simp add: productA_def)
  show its2: "items (addToCart pf fetch t2 productA (Some 3)
            (addToCart pf fetch t1 productA (Some 2) (initialState sid t0))) =
     [\<lparr>item_id = ''A'', product = productA, quantity = 5, addedAt = t1\<rparr>]"
    by (simp add: addToCart_def [of pf fetch t2] r Let_def its1 eA withComputedValues_def
        computeCartValues_def)
  have "totalsConsistent pf (addToCart pf fetch t2 productA (Some 3)
            (addToCart pf fetch t1 productA (Some 2) (initialState sid t0)))"
    by (rule totalsConsistent_addToCart)
  then show "totalPrice (addToCart pf fetch t2 productA (Some 3)
            (addToCart pf fetch t1 productA (Some 2) (initialState sid t0))) = 50"
    unfolding totalsConsistent_def its2 by (simp add: priceOf_def productA_def)
next
  show "findIndex (\<lambda>item. item_id item = externalId (resolveProduct fetch p)) (items st) = Some i
    \<longrightarrow> items (addToCart pf fetch now p (Some q) st) =
        (items st)[i := (items st ! i)\<lparr>quantity := quantity (items st ! i) + q\<rparr>]"
    by (simp add: addToCart_def Let_def withComputedValues_def computeCartValues_def)
next
  show "findIndex (\<lambda>c. cs_sessionId c = s) (cart_sessions db) = Some cid \<and>
    findIndex (\<lambda>item. productId item = pid) (cs_items (cart_sessions db ! cid)) = Some j \<and>
    mutation_addToCart t s pid n db = Inr db' \<longrightarrow>
      length (cs_items (cart_sessions db' ! cid)) = length (cs_items (cart_sessions db ! cid)) \<and>
      si_quantity (cs_items (cart_sessions db' ! cid) ! j) =
        si_quantity (cs_items (cart_sessions db ! cid) ! j) + n \<and>
      productId (cs_items (cart_sessions db' ! cid) ! j) = pid"
  proof
  assume h: "findIndex (\<lambda>c. cs_sessionId c = s) (cart_sessions db) = Some cid \<and>
    findIndex (\<lambda>item. productId item = pid) (cs_items (cart_sessions db ! cid)) = Some j \<and>
    mutation_addToCart t s pid n db = Inr db'"
  then have cid: "cid < length (cart_sessions db)"
    and j: "j < length (cs_items (cart_sessions db ! cid))"
    and pj: "productId (cs_items (cart_sessions db ! cid) ! j) = pid"
    by (auto dest: findIndex_Some)
  from h have "\<exists>prd. products db pid = Some prd \<and>
           cs_items (cart_sessions db' ! cid) =
            (cs_items (cart_sessions db ! cid))[j :=
               (cs_items (cart_sessions db ! cid) ! j)\<lparr>si_quantity :=
                  si_quantity (cs_items (cart_sessions db ! cid) ! j) + n,
                  unitPrice := cp_price prd\<rparr>]"
    by (intro mutation_addToCart_existing [of t s pid n db db' cid j]) simp_all
  then show "length (cs_items (cart_sessions db' ! cid)) = length (cs_items (cart_sessions db ! cid)) \<and>
      si_quantity (cs_items (cart_sessions db' ! cid) ! j) =
        si_quantity (cs_items (cart_sessions db ! cid) ! j) + n \<and>
      productId (cs_items (cart_sessions db' ! cid) ! j) = pid"
    using j pj by auto
  qed
qed

theorem addToCart_accumulates_witness:
  "findIndex (\<lambda>item. item_id item = externalId (resolveProduct (\<lambda>k. None) productA))
     (items (addToCart (\<lambda>s. 0) (\<lambda>k. None) 1 productA (Some 2) (initialState ''s1'' 0))) = Some 0 \<and>
   items (addToCart (\<lambda>s. 0) (\<lambda>k. None) 2 productA (Some 3)
      (addToCart (\<lambda>s. 0) (\<lambda>k. None) 1 productA (Some 2) (initialState ''s1'' 0))) =
     [\<lparr>item_id = ''A'', product = productA, quantity = 5, addedAt = 1\<rparr>] \<and>
   findIndex (\<lambda>c. cs_sessionId c = ''s1'') [sessionWithA 2 10 1] = Some 0 \<and>
   findIndex (\<lambda>item. productId item = ''A'') (cs_items ([sessionWithA 2 10 1] ! 0)) = Some 0 \<and>
   mutation_addToCart 2 ''s1'' ''A'' 3 \<lparr>products = catalogA, cart_sessions = [sessionWithA 2 10 1]\<rparr>
     = Inr \<lparr>products = catalogA, cart_sessions = [sessionWithA 5 10 2]\<rparr> \<and>
   si_quantity (cs_items ([sessionWithA 5 10 2] ! 0) ! 0) = 2 + 3 \<and>
   length (cs_items ([sessionWithA 5 10 2] ! 0)) = 1"
proof -
  let ?st = "addToCart (\<lambda>s. 0) (\<lambda>k. None) 1 productA (Some 2) (initialState ''s1'' 0)"
  let ?db = "\<lparr>products = catalogA, cart_sessions = [sessionWithA 2 10 1]\<rparr>"
  let ?db' = "\<lparr>products = catalogA, cart_sessions = [sessionWithA 5 10 2]\<rparr>"
  have a: "findIndex (\<lambda>item. item_id item = externalId (resolveProduct (\<lambda>k. None) productA))
     (items ?st) = Some 0"
    by (simp add: ex_item) (simp add: resolveProduct_def productA_def truthyPrice_def)
  have b: "findIndex (\<lambda>c. cs_sessionId c = ''s1'') (cart_sessions ?db) = Some 0"
    by (simp add: sessionWithA_def)
  have c: "findIndex (\<lambda>item. productId item = ''A'') (cs_items (cart_sessions ?db ! 0)) = Some 0"
    by (simp add: sessionWithA_def)
  have d: "mutation_addToCart 2 ''s1'' ''A'' 3 ?db = Inr ?db'"
    by (rule ex_add2)
  have e: "si_quantity (cs_items (cart_sessions ?db ! 0) ! 0) = 2"
    by (simp add: sessionWithA_def)
  from addToCart_accumulates [where pf = "\<lambda>s. 0" and fetch = "\<lambda>k. None" and ?t1.0 = 1
      and ?t2.0 = 2 and sid = "''s1''" and ?t0.0 = 0 and p = productA and st = ?st and i = 0
      and q = 3 and now = 2 and s = "''s1''" and db = ?db and cid = 0 and pid = "''A''"
      and j = 0 and t = 2 and n = 3 and db' = ?db'] a b c d e
  show ?thesis by (simp add: sessionWithA_def)
qed

section \<open>The stored unit price follows the catalog\<close>

text \<open>
  Claim C10. A successful server-side \<open>addToCart\<close> of a product that is already in the
  session's cart, and every successful \<open>updateCartItemQuantity\<close>, store the product's
  current catalog price as the item's \<open>unitPrice\<close>: the price the item was first added at is
  overwritten, whatever it was.
\<close>

theorem unitPrice_overwritten:
  "(findIndex (\<lambda>c. cs_sessionId c = s) (cart_sessions db) = Some cid \<and>
    findIndex (\<lambda>item. productId item = pid) (cs_items (cart_sessions db ! cid)) = Some j \<and>
    products db pid = Some prd \<and>
    mutation_addToCart t s pid n db = Inr db' \<longrightarrow>
      unitPrice (cs_items (cart_sessions db' ! cid) ! j) = cp_price prd) \<and>
   (findIndex (\<lambda>c. cs_sessionId c = s) (cart_sessions db) = Some cid \<and>
    findIndex (\<lambda>item. productId item = pid) (cs_items (cart_sessions db ! cid)) = Some j \<and>
    products db pid = Some prd \<and>
    mutation_updateCartItemQuantity t s pid n db = Inr db'' \<longrightarrow>
      unitPrice (cs_items (cart_sessions db'' ! cid) ! j) = cp_price prd \<and>
      si_quantity (cs_items (cart_sessions db'' ! cid) ! j) = n)"
proof (intro conjI impI)
  assume h: "findIndex (\<lambda>c. cs_sessionId c = s) (cart_sessions db) = Some cid \<and>
    findIndex (\<lambda>item. productId item = pid) (cs_items (cart_sessions db ! cid)) = Some j \<and>
    products db pid = Some prd \<and>
    mutation_addToCart t s pid n db = Inr db'"
  then have j: "j < length (cs_items (cart_sessions db ! cid))"
    by (auto dest: findIndex_Some)
  from h mutation_addToCart_existing [of t s pid n db db' cid j]
  show "unitPrice (cs_items (cart_sessions db' ! cid) ! j) = cp_price prd"
    using j by auto
next
  assume h: "findIndex (\<lambda>c. cs_sessionId c = s) (cart_sessions db) = Some cid \<and>
    findIndex (\<lambda>item. productId item = pid) (cs_items (cart_sessions db ! cid)) = Some j \<and>
    products db pid = Some prd \<and>
    mutation_updateCartItemQuantity t s pid n db = Inr db''"
  then have j: "j < length (cs_items (cart_sessions db ! cid))"
    by (auto dest: findIndex_Some)
  from h mutation_updateCartItemQuantity_success [of t s pid n db db'']
  show "unitPrice (cs_items (cart_sessions db'' ! cid) ! j) = cp_price prd"
    and "si_quantity (cs_items (cart_sessions db'' ! cid) ! j) = n"
    using j by auto
qed

lemma ex_add12:
  "mutation_addToCart 2 ''s1'' ''A'' 3
     \<lparr>products = catalogA12, cart_sessions = [sessionWithA 2 10 1]\<rparr> =
   Inr \<lparr>products = catalogA12, cart_sessions = [sessionWithA 5 12 2]\<rparr>"
  by (simp add: mutation_addToCart_def catalogA12_def sessionWithA_def patchSession_def
      sessionTotals_def)

lemma ex_update12:
  "mutation_updateCartItemQuantity 2 ''s1'' ''A'' 1
     \<lparr>products = catalogA12, cart_sessions = [sessionWithA 2 10 1]\<rparr> =
   Inr \<lparr>products = catalogA12, cart_sessions = [sessionWithA 1 12 2]\<rparr>"
  by (simp add: mutation_updateCartItemQuantity_def catalogA12_def sessionWithA_def
      patchSession_def sessionTotals_def)

theorem unitPrice_overwritten_witness:
  "findIndex (\<lambda>c. cs_sessionId c = ''s1'') [sessionWithA 2 10 1] = Some 0 \<and>
   findIndex (\<lambda>item. productId item = ''A'') (cs_items ([sessionWithA 2 10 1] ! 0)) = Some 0 \<and>
   unitPrice (cs_items ([sessionWithA 2 10 1] ! 0) ! 0) = 10 \<and>
   catalogA12 ''A'' = Some \<lparr>cp_price = 12, cp_availableQuantity = 100, cp_isActive = True\<rparr> \<and>
   mutation_addToCart 2 ''s1'' ''A'' 3
     \<lparr>products = catalogA12, cart_sessions = [sessionWithA 2 10 1]\<rparr> =
     Inr \<lparr>products = catalogA12, cart_sessions = [sessionWithA 5 12 2]\<rparr> \<and>
   unitPrice (cs_items ([sessionWithA 5 12 2] ! 0) ! 0) = 12 \<and>
   mutation_updateCartItemQuantity 2 ''s1'' ''A'' 1
     \<lparr>products = catalogA12, cart_sessions = [sessionWithA 2 10 1]\<rparr> =
     Inr \<lparr>products = catalogA12, cart_sessions = [sessionWithA 1 12 2]\<rparr> \<and>
   unitPrice (cs_items ([sessionWithA 1 12 2] ! 0) ! 0) = 12"
proof -
  let ?db = "\<lparr>products = catalogA12, cart_sessions = [sessionWithA 2 10 1]\<rparr>"
  let ?db' = "\<lparr>products = catalogA12, cart_sessions = [sessionWithA 5 12 2]\<rparr>"
  let ?db'' = "\<lparr>products = catalogA12, cart_sessions = [sessionWithA 1 12 2]\<rparr>"
  let ?prd = "\<lparr>cp_price = 12, cp_availableQuantity = 100, cp_isActive = True\<rparr>"
  have b: "findIndex (\<lambda>c. cs_sessionId c = ''s1'') (cart_sessions ?db) = Some 0"
    by (simp add: sessionWithA_def)
  have c: "findIndex (\<lambda>item. productId item = ''A'') (cs_items (cart_sessions ?db ! 0)) = Some 0"
    by (simp add: sessionWithA_def)
  have p: "products ?db ''A'' = Some ?prd"
    by (simp add: catalogA12_def)
  have o: "unitPrice (cs_items ([sessionWithA 2 10 1] ! 0) ! 0) = 10"
    by (simp add: sessionWithA_def)
  from unitPrice_overwritten [where s = "''s1''" and db = ?db and cid = 0 and pid = "''A''"
      and j = 0 and prd = ?prd and t = 2 and n = 3 and db' = ?db']
    unitPrice_overwritten [where s = "''s1''" and db = ?db and cid = 0 and pid = "''A''"
      and j = 0 and prd = ?prd and t = 2 and n = 1 and db'' = ?db'']
    b c p o ex_add12 ex_update12
  show ?thesis by (simp add: sessionWithA_def)
qed

section \<open>Validation and the cart\<close>

lemma validateItems_pass:
  "passesValidation fetch item \<Longrightarrow>
   validateItems fetch (item # rest) =
     (fst (validateItems fetch rest), refreshProduct fetch item # snd (validateItems fetch rest))"
  by (auto simp: passesValidation_def refreshProduct_def split: option.splits prod.splits)

lemma validateItems_fail:
  "\<not> passesValidation fetch item \<Longrightarrow>
   \<exists>issue. validateItems fetch (item # rest) =
     (issue # fst (validateItems fetch rest), snd (validateItems fetch rest))"
  by (auto simp: passesValidation_def split: option.splits prod.splits)

lemma validateItems_kept:
  "snd (validateItems fetch its) = map (refreshProduct fetch) (filter (passesValidation fetch) its)"
proof (induction its)
  case Nil
  show ?case by simp
next
  case (Cons item rest)
  show ?case
  proof (cases "passesValidation fetch item")
    case True
    with Cons show ?thesis by (simp add: validateItems_pass del: validateItems.simps)
  next
    case False
    with validateItems_fail [of fetch item rest] Cons show ?thesis
      by (auto simp del: validateItems.simps)
  qed
qed

lemma validateItems_issues_length:
  "length (fst (validateItems fetch its)) =
     length (filter (\<lambda>item. \<not> passesValidation fetch item) its)"
proof (induction its)
  case Nil
  show ?case by simp
next
  case (Cons item rest)
  show ?case
  proof (cases "passesValidation fetch item")
    case True
    with Cons show ?thesis by (simp add: validateItems_pass del: validateItems.simps)
  next
    case False
    with validateItems_fail [of fetch item rest] Cons show ?thesis
      by (auto simp del: validateItems.simps)
  qed
qed

lemma ex_validate:
  "validateCart (\<lambda>s. 0) inactiveA 7 cartWithA =
     (\<lparr>sv_hasIssues = True, sv_issues = [NoLongerAvailable ''Produto A'']\<rparr>,
      \<lparr>items = [], sessionId = ''s1'', isLoading = False, lastUpdated = 7,
       itemCount = 0, totalPrice = 0\<rparr>)"
  by (simp add: validateCart_def cartWithA_def inactiveA_def productA_def withComputedValues_def
      computeCartValues_def)

text \<open>
  Claim C5, as amended. \<open>validateCart\<close> of the cart store returns \<open>{hasIssues, issues}\<close> and
  rewrites the cart: the items become exactly the items that pass (product found, active,
  stock sufficient), each with its product data replaced by the fetched data; every item
  that raised an issue is dropped; \<open>lastUpdated\<close> is set to the current time and the totals
  are recomputed from the kept items; the session id and the loading flag stay. It reports
  one issue per dropped item (not found, no longer available, insufficient stock) and no
  price change. \<open>validateCart\<close> of \<open>useCartAPI\<close> only computes its verdict from the cart and
  the product list it is given (not found, insufficient stock, price changed).
\<close>

theorem validateCart_effect:
  "(validateCart pf fetch now st = (r, st') \<longrightarrow>
     items st' = map (refreshProduct fetch) (filter (passesValidation fetch) (items st)) \<and>
     lastUpdated st' = now \<and> sessionId st' = sessionId st \<and> isLoading st' = isLoading st \<and>
     totalsConsistent pf st' \<and>
     sv_hasIssues r = (sv_issues r \<noteq> []) \<and>
     length (sv_issues r) =
       length (filter (\<lambda>item. \<not> passesValidation fetch item) (items st))) \<and>
   hasIssues (useCartAPI_validateCart ps cartData) =
     (issues (useCartAPI_validateCart ps cartData) \<noteq> []) \<and>
   isValid (useCartAPI_validateCart ps cartData) =
     (issues (useCartAPI_validateCart ps cartData) = [])"
proof (intro conjI impI)
  assume h: "validateCart pf fetch now st = (r, st')"
  obtain found validatedItems where v: "validateItems fetch (items st) = (found, validatedItems)"
    by (cases "validateItems fetch (items st)")
  from h v have r: "r = \<lparr>sv_hasIssues = (found \<noteq> []), sv_issues = found\<rparr>"
    and st': "st' = withComputedValues pf (st\<lparr>items := validatedItems, lastUpdated := now\<rparr>)"
    by (simp_all add: validateCart_def)
  from v validateItems_kept [of fetch "items st"]
  have k: "validatedItems = map (refreshProduct fetch) (filter (passesValidation fetch) (items st))"
    by simp
  from v validateItems_issues_length [of fetch "items st"]
  have l: "length found = length (filter (\<lambda>item. \<not> passesValidation fetch item) (items st))"
    by simp
  show "totalsConsistent pf st'"
    unfolding st' by (rule totalsConsistent_withComputedValues)
  show "items st' = map (refreshProduct fetch) (filter (passesValidation fetch) (items st))"
    by (simp add: st' k withComputedValues_def split: prod.splits)
  show "lastUpdated st' = now" "sessionId st' = sessionId st" "isLoading st' = isLoading st"
    by (simp_all add: st' withComputedValues_def split: prod.splits)
  show "sv_hasIssues r = (sv_issues r \<noteq> [])"
    by (simp add: r)
  show "length (sv_issues r) =
       length (filter (\<lambda>item. \<not> passesValidation fetch item) (items st))"
    by (simp add: r l)
next
  show "hasIssues (useCartAPI_validateCart ps cartData) =
     (issues (useCartAPI_validateCart ps cartData) \<noteq> [])"
    by (simp add: useCartAPI_validateCart_def Let_def split: option.splits)
  show "isValid (useCartAPI_validateCart ps cartData) =
     (issues (useCartAPI_validateCart ps cartData) = [])"
    by (simp add: useCartAPI_validateCart_def Let_def split: option.splits)
qed

text \<open>The claim as stated fails on the cart store: validating a cart that holds a
  deactivated product removes the item and resets the total.\<close>

theorem validateCart_counterexample:
  "snd (validateCart (\<lambda>s. 0) inactiveA 7 cartWithA) \<noteq> cartWithA \<and>
   items (snd (validateCart (\<lambda>s. 0) inactiveA 7 cartWithA)) = [] \<and>
   items cartWithA = [\<lparr>item_id = ''A'', product = productA, quantity = 2, addedAt = 1\<rparr>] \<and>
   totalPrice (snd (validateCart (\<lambda>s. 0) inactiveA 7 cartWithA)) = 0 \<and>
   totalPrice cartWithA = 20"
  by (simp add: ex_validate) (simp add: cartWithA_def)

theorem validateCart_effect_witness:
  "validateCart (\<lambda>s. 0) inactiveA 7 cartWithA =
     (\<lparr>sv_hasIssues = True, sv_issues = [NoLongerAvailable ''Produto A'']\<rparr>,
      \<lparr>items = [], sessionId = ''s1'', isLoading = False, lastUpdated = 7,
       itemCount = 0, totalPrice = 0\<rparr>) \<and>
   map (refreshProduct inactiveA) (filter (passesValidation inactiveA) (items cartWithA)) = [] \<and>
   length (filter (\<lambda>item. \<not> passesValidation inactiveA item) (items cartWithA)) = 1"
proof -
  from validateCart_effect [where pf = "\<lambda>s. 0" and fetch = inactiveA and now = 7
      and st = cartWithA
      and r = "\<lparr>sv_hasIssues = True, sv_issues = [NoLongerAvailable ''Produto A'']\<rparr>"
      and st' = "\<lparr>items = [], sessionId = ''s1'', isLoading = False, lastUpdated = 7,
       itemCount = 0, totalPrice = 0\<rparr>"] ex_validate
  have "[] = map (refreshProduct inactiveA) (filter (passesValidation inactiveA) (items cartWithA))"
    and "length [NoLongerAvailable ''Produto A''] =
       length (filter (\<lambda>item. \<not> passesValidation inactiveA item) (items cartWithA))"
    by simp_all
  with ex_validate show ?thesis by simp
qed

section \<open>Reading the cache after a write\<close>







text \<open>A write that \<open>localStorage\<close> rejects leaves an older entry under the key in place. When
  that entry has not expired, a later \<open>get\<close> returns it, also after the entry of the
  rejected write has expired in the memory tier: here the old catalog, stored at time 0
  for 1000000 ms, is returned at time 200, after a rejected write at time 10 for 100 ms.\<close>

lemma rejected_write_older_entry_returned:
  "fst (CacheService_get singletonConfig 200 ''products'' ''all''
     (snd (CacheService_set singletonConfig False 10 ''products'' ''all'' [''new''] (Some 100)
        \<lparr>memoryCache = [],
         localStorage =
           [(''cache_products_all'',
             Json \<lparr>data = [''old''], timestamp = 0, ttl = 1000000, version = ''1.0.0''\<rparr>)]\<rparr>))) =
   Some [''old'']"
  by (simp add: CacheService_set_def CacheService_get_def singletonConfig_def generateKey_def
      manageMemoryCacheSize_def setToLocalStorage_def effectiveTTL_def getFromLocalStorage_def
      isExpired_def isVersionValid_def Let_def)




section \<open>Incoming synchronisation messages\<close>

lemma applyCartUpdated_stale:
  "msg_lastUpdated msg \<le> lastUpdated (cart ctx) \<Longrightarrow> applyCartUpdated now stored msg ctx = ctx"
  by (simp add: applyCartUpdated_def Let_def)

lemma applyStorageChange_stale:
  "(case p_lastUpdated newState of Some t \<Rightarrow> t | None \<Rightarrow> 0) \<le> lastUpdated (cart ctx) \<Longrightarrow>
   applyStorageChange now (WithState newState) ctx = ctx"
  by (simp add: applyStorageChange_def Let_def)

lemma applyCartUpdated_twice:
  "applyCartUpdated now' stored msg (applyCartUpdated now stored msg ctx) =
     applyCartUpdated now stored msg ctx"
  by (cases stored) (simp_all add: applyCartUpdated_def Let_def)

lemma applyCartUpdated_twice_reset:
  "\<not> isUpdating ctx \<Longrightarrow>
   applyCartUpdated now' stored msg (resetUpdating (applyCartUpdated now stored msg ctx)) =
     resetUpdating (applyCartUpdated now stored msg ctx)"
  by (cases stored) (simp_all add: applyCartUpdated_def resetUpdating_def Let_def)

lemma applyStorageChange_twice:
  "applyStorageChange now' newValue (applyStorageChange now newValue ctx) =
     applyStorageChange now newValue ctx"
  by (cases newValue) (simp_all add: applyStorageChange_def Let_def)

lemma applyStorageChange_twice_reset:
  "\<not> isUpdating ctx \<Longrightarrow>
   applyStorageChange now' newValue (resetUpdating (applyStorageChange now newValue ctx)) =
     resetUpdating (applyStorageChange now newValue ctx)"
  by (cases newValue) (simp_all add: applyStorageChange_def resetUpdating_def Let_def)

text \<open>A committed remote update replaces the items and leaves \<open>_itemCount\<close> and
  \<open>_totalPrice\<close> as they were: the hook sets items, session id and timestamp only.\<close>

lemma commitRemote_keeps_totals:
  "itemCount (commitRemote now newState st) = itemCount st \<and>
   totalPrice (commitRemote now newState st) = totalPrice st"
  by (simp add: commitRemote_def)

lemma ex_apply9:
  "applyCartUpdated 20 (WithState emptiedAt9) messageAt9 tabWithA = tabEmptied"
  by (simp add: applyCartUpdated_def tabWithA_def emptiedAt9_def messageAt9_def tabEmptied_def
      cartWithA_def hasChanges_def commitRemote_def Let_def)

lemma ex_storage9:
  "applyStorageChange 20 (WithState emptiedAt9) tabWithA = tabEmptied"
  by (simp add: applyStorageChange_def tabWithA_def emptiedAt9_def tabEmptied_def
      cartWithA_def hasChanges_def commitRemote_def Let_def)

text \<open>
  Claim C8. A \<open>CART_UPDATED\<close> message whose timestamp (the \<open>lastUpdated\<close> it carries, which
  is the value the code compares; a message is sent no earlier than that, so its
  \<open>timestamp\<close> field is no smaller) is at or before the local cart's \<open>lastUpdated\<close> leaves the
  tab unchanged, and so does a storage event whose persisted \<open>lastUpdated\<close> is at or before
  it. Applying the same message, or the same storage event, a second time changes nothing
  more: the result of the first application is a fixed point, also when the guard has
  been reset in between (for a tab that was not itself applying an update).
\<close>

theorem sync_last_write_wins:
  "(msg_lastUpdated msg \<le> lastUpdated (cart ctx) \<longrightarrow>
      applyCartUpdated now stored msg ctx = ctx) \<and>
   (msg_lastUpdated msg \<le> msg_timestamp msg \<and> msg_timestamp msg \<le> lastUpdated (cart ctx) \<longrightarrow>
      applyCartUpdated now stored msg ctx = ctx) \<and>
   ((case p_lastUpdated newState of Some t \<Rightarrow> t | None \<Rightarrow> 0) \<le> lastUpdated (cart ctx) \<longrightarrow>
      applyStorageChange now (WithState newState) ctx = ctx) \<and>
   applyCartUpdated now' stored msg (applyCartUpdated now stored msg ctx) =
     applyCartUpdated now stored msg ctx \<and>
   applyStorageChange now' newValue (applyStorageChange now newValue ctx) =
     applyStorageChange now newValue ctx \<and>
   (\<not> isUpdating ctx \<longrightarrow>
      applyCartUpdated now' stored msg (resetUpdating (applyCartUpdated now stored msg ctx)) =
        resetUpdating (applyCartUpdated now stored msg ctx)) \<and>
   (\<not> isUpdating ctx \<longrightarrow>
      applyStorageChange now' newValue (resetUpdating (applyStorageChange now newValue ctx)) =
        resetUpdating (applyStorageChange now newValue ctx))"
  by (simp add: applyCartUpdated_stale applyStorageChange_stale applyCartUpdated_twice
      applyCartUpdated_twice_reset applyStorageChange_twice applyStorageChange_twice_reset)

theorem sync_last_write_wins_witness:
  "msg_lastUpdated messageAt1 \<le> lastUpdated (cart tabWithA) \<and>
   applyCartUpdated 20 (WithState emptiedAt9) messageAt1 tabWithA = tabWithA \<and>
   applyCartUpdated 20 (WithState emptiedAt9) messageAt9 tabWithA = tabEmptied \<and>
   applyCartUpdated 30 (WithState emptiedAt9) messageAt9 tabEmptied = tabEmptied \<and>
   isUpdating tabWithA = False \<and>
   applyCartUpdated 500 (WithState emptiedAt9) messageAt9 (resetUpdating tabEmptied) =
     resetUpdating tabEmptied \<and>
   applyStorageChange 20 (WithState emptiedAt9) tabWithA = tabEmptied \<and>
   applyStorageChange 30 (WithState emptiedAt9) tabEmptied = tabEmptied \<and>
   applyStorageChange 500 (WithState emptiedAt9) (resetUpdating tabEmptied) =
     resetUpdating tabEmptied"
proof -
  have a: "msg_lastUpdated messageAt1 \<le> lastUpdated (cart tabWithA)"
    by (simp add: messageAt1_def tabWithA_def cartWithA_def)
  have u: "\<not> isUpdating tabWithA"
    by (simp add: tabWithA_def)
  note stale = sync_last_write_wins [where msg = messageAt1 and ctx = tabWithA and now = 20
      and stored = "WithState emptiedAt9"]
  note twice = sync_last_write_wins [where msg = messageAt9 and ctx = tabWithA and now = 20
      and stored = "WithState emptiedAt9" and now' = 30 and newValue = "WithState emptiedAt9"]
  note later = sync_last_write_wins [where msg = messageAt9 and ctx = tabWithA and now = 20
      and stored = "WithState emptiedAt9" and now' = 500 and newValue = "WithState emptiedAt9"]
  from stale a have "applyCartUpdated 20 (WithState emptiedAt9) messageAt1 tabWithA = tabWithA"
    by blast
  moreover from twice have
    "applyCartUpdated 30 (WithState emptiedAt9) messageAt9 tabEmptied = tabEmptied"
    "applyStorageChange 30 (WithState emptiedAt9) tabEmptied = tabEmptied"
    unfolding ex_apply9 ex_storage9 by blast+
  moreover from later u have
    "applyCartUpdated 500 (WithState emptiedAt9) messageAt9 (resetUpdating tabEmptied) =
       resetUpdating tabEmptied"
    "applyStorageChange 500 (WithState emptiedAt9) (resetUpdating tabEmptied) =
       resetUpdating tabEmptied"
    unfolding ex_apply9 ex_storage9 by blast+
  ultimately show ?thesis
    using a u ex_apply9 ex_storage9 by simp
qed

section \<open>Retrying a failed fetch\<close>

lemma retryLoop_all_fail:
  "\<lbrakk>1 \<le> attempt; attempt \<le> maxAttempts;
    \<forall>a. attempt \<le> a \<and> a \<le> maxAttempts \<longrightarrow> (\<exists>e. fn a = Inl e)\<rbrakk> \<Longrightarrow>
   fst (snd (retryLoop fn random maxAttempts initialDelay attempt lastError waits)) = maxAttempts"
proof (induction fn random maxAttempts initialDelay attempt lastError waits
    rule: retryLoop.induct)
  case (1 fn random maxAttempts initialDelay attempt lastError waits)
  from "1.prems" obtain e where e: "fn attempt = Inl e" by blast
  show ?case
  proof (cases "attempt = maxAttempts")
    case True
    with e "1.prems" show ?thesis by simp
  next
    case False
    with "1.prems" have lt: "attempt + 1 \<le> maxAttempts" by simp
    from "1.prems" have rest: "\<forall>a. attempt + 1 \<le> a \<and> a \<le> maxAttempts \<longrightarrow> (\<exists>e. fn a = Inl e)"
      by simp
    have "fst (snd (retryLoop fn random maxAttempts initialDelay (attempt + 1) e
        (waits @ [initialDelay * 2 ^ (attempt - 1) +
                  random attempt * (1 / 10) * (initialDelay * 2 ^ (attempt - 1))]))) = maxAttempts"
      using "1.IH" [OF _ e False refl refl _ lt rest] "1.prems" by simp
    with e False "1.prems" show ?thesis
      by (subst retryLoop.simps) (simp add: Let_def)
  qed
qed

text \<open>Whatever the errors are, a fetch whose attempts all fail makes every attempt of its
  budget.\<close>

lemma retryWithBackoff_exhausts:
  "1 \<le> maxAttempts \<Longrightarrow> \<forall>a. \<exists>e. fn a = Inl e \<Longrightarrow>
   fst (snd (retryWithBackoff fn random maxAttempts initialDelay)) = maxAttempts"
  unfolding retryWithBackoff_def by (rule retryLoop_all_fail) auto

text \<open>Two server errors followed by a good answer: the fetch is retried and the caller
  sees the catalog only.\<close>

lemma fetch_503_then_ok:
  "fetchProductsFromAPI normalizeProduct
     (\<lambda>attempt. if attempt < 3 then Responded 503 None else Responded 200 (Some [x]))
     (\<lambda>attempt. 0) =
     (Inr [normalizeProduct x], 3, [1000, 2000])"
  by (simp add: fetchProductsFromAPI_def retryWithBackoff_def fetchAttempt_def
      MAX_RETRY_ATTEMPTS_def INITIAL_RETRY_DELAY_def Let_def)

text \<open>The retry of the paginated hook, for comparison: a 404 is thrown after the first
  call, a 503 is retried until the four attempts are used up.\<close>

lemma dec404: "decimal 404 = ''404''"
  by (simp add: decimal.simps [of 404] decimal.simps [of 40] decimal.simps [of 4])

lemma dec503: "decimal 503 = ''503''"
  by (simp add: decimal.simps [of 503] decimal.simps [of 50] decimal.simps [of 5])

lemma notRetried_404: "notRetried (httpStatusError 404 ''Not Found'')"
  by (simp add: notRetried_def httpStatusError_def dec404)

lemma retried_503: "\<not> notRetried (httpStatusError 503 ''Service Unavailable'')"
  by (simp add: notRetried_def httpStatusError_def dec503)

lemma optimized_404_not_retried:
  "retryWithBackoffOptimized (\<lambda>attempt. Inl (httpStatusError 404 ''Not Found'')) random 3 1000 =
     (Inl (httpStatusError 404 ''Not Found''), 1, [])"
  by (simp add: retryWithBackoffOptimized_def notRetried_404)

lemma optimized_503_retried:
  "retryWithBackoffOptimized (\<lambda>attempt. Inl (httpStatusError 503 ''Service Unavailable''))
     (\<lambda>attempt. 0) 3 1000 =
     (Inl (httpStatusError 503 ''Service Unavailable''), 4, [1000, 2000, 4000])"
  by (simp add: retryWithBackoffOptimized_def retried_503)

text \<open>
  Claim C3 says that a fetch that fails with a server-side or timeout error is retried
  while attempts remain, and that a client-side (4xx) failure is not retried but reaches
  the caller at once. \<open>retryWithBackoff\<close> of the catalog hook does the first and not the
  second: it never looks at the error. When every attempt is answered with status 404,
  the fetch is made three times, with waits of 1000 and 2000 ms (jitter 0) in between,
  before "Endpoint nao encontrado (404)" reaches the caller.
\<close>

theorem fetch_404_is_retried:
  "fetchProductsFromAPI normalizeProduct (\<lambda>attempt. Responded 404 None) (\<lambda>attempt. 0) =
     (Inl EndpointNotFound, 3, [1000, 2000])"
  by (simp add: fetchProductsFromAPI_def retryWithBackoff_def fetchAttempt_def
      MAX_RETRY_ATTEMPTS_def INITIAL_RETRY_DELAY_def Let_def)

section \<open>Falling back to an expired cache entry\<close>

text \<open>No key the cache service writes under is the key the fallback reads.\<close>

lemma generateKey_not_expiredCacheKey:
  "generateKey namespace identifier \<noteq> expiredCacheKey"
  by (simp add: generateKey_def expiredCacheKey_def PRODUCTS_NAMESPACE_def
      PRODUCTS_CACHE_KEY_def)

text \<open>The cache service never creates an entry under the key the fallback reads, so
  from a storage without such an entry every failed load ends without data.\<close>

lemma get_keeps_fallback_absent:
  "map_of (localStorage cs) expiredCacheKey = None \<Longrightarrow>
   map_of (localStorage (snd (CacheService_get cfg now ns k cs))) expiredCacheKey = None"
  by (auto simp: CacheService_get_def getFromLocalStorage_def Let_def delete_conv'
      split: option.splits storedValue.splits prod.splits)

lemma set_keeps_fallback_absent:
  "map_of (localStorage cs) expiredCacheKey = None \<Longrightarrow>
   map_of (localStorage (snd (CacheService_set cfg accepted now ns k d ttlArg cs)))
     expiredCacheKey = None"
  using generateKey_not_expiredCacheKey [of ns k]
  by (auto simp: CacheService_set_def setToLocalStorage_def Let_def update_conv')

lemma loadProducts_without_fallback_entry:
  assumes "map_of (localStorage cs) expiredCacheKey = None"
    and "fst (getCachedProducts cfg now cs) = None"
  shows "fst (loadProducts cfg accepted now later cacheTTL (Inl e) (hook, cs)) =
           hook\<lparr>hook_isLoading := False, hook_error := Some (ApiFailure e)\<rparr>"
proof -
  obtain cs' where g: "getCachedProducts cfg now cs = (None, cs')"
    using assms(2) by (cases "getCachedProducts cfg now cs") auto
  then have "cs' = snd (CacheService_get cfg now PRODUCTS_NAMESPACE PRODUCTS_CACHE_KEY cs)"
    by (simp add: getCachedProducts_def)
  with assms(1) have "map_of (localStorage cs') expiredCacheKey = None"
    by (simp add: get_keeps_fallback_absent)
  then have "getExpiredCachedProducts (localStorage cs') = None"
    by (simp add: getExpiredCachedProducts_def)
  with g show ?thesis
    by (simp add: loadProducts_def afterFailure_def)
qed

text \<open>When the fetch succeeds and \<open>localStorage\<close> rejects the cache write, the error of the
  write takes the path of a failed fetch: the fetched catalog is not shown.\<close>

lemma loadProducts_rejected_cache_write:
  assumes "map_of (localStorage cs) expiredCacheKey = None"
    and "fst (getCachedProducts cfg now cs) = None"
  shows "fst (loadProducts cfg False now later cacheTTL (Inr ps) (hook, cs)) =
           hook\<lparr>hook_isLoading := False,
                hook_error := Some (CacheWriteFailure DEBUG_is_not_defined)\<rparr>"
proof -
  obtain cs' where g: "getCachedProducts cfg now cs = (None, cs')"
    using assms(2) by (cases "getCachedProducts cfg now cs") auto
  then have "cs' = snd (CacheService_get cfg now PRODUCTS_NAMESPACE PRODUCTS_CACHE_KEY cs)"
    by (simp add: getCachedProducts_def)
  with assms(1) have absent: "map_of (localStorage cs') expiredCacheKey = None"
    by (simp add: get_keeps_fallback_absent)
  let ?cs'' = "snd (CacheService_set cfg False later PRODUCTS_NAMESPACE PRODUCTS_CACHE_KEY
      ps (Some cacheTTL) cs')"
  have w: "setCachedProducts cfg False later ps cacheTTL cs' = (Some DEBUG_is_not_defined, ?cs'')"
    by (simp add: setCachedProducts_def CacheService_set_def setToLocalStorage_def Let_def)
  from absent have "map_of (localStorage ?cs'') expiredCacheKey = None"
    by (rule set_keeps_fallback_absent)
  then have "getExpiredCachedProducts (localStorage ?cs'') = None"
    by (simp add: getExpiredCachedProducts_def)
  with g w show ?thesis
    by (simp add: loadProducts_def afterFailure_def)
qed

text \<open>
  Claim C6 says that when the fetch has used up its attempts and the cache holds only an
  expired catalog, \<open>loadProducts\<close> hands that expired catalog to the caller together with a
  degraded-mode warning. The code does not: the read through the cache service has already
  deleted the expired entry, and the fallback looks under \<open>products:all_products\<close> while
  the entry was stored under \<open>cache_products_all_products\<close>. With the catalog cached at time
  0 for 300000 ms, a load at time 400000 whose fetch fails ends with no products, the
  fetch's error as the message, and an empty \<open>localStorage\<close>.
\<close>

theorem loadProducts_expired_only:
  "loadProducts singletonConfig True 400000 400500 300000 (Inl (ServerFailure 503))
     (freshHook, expiredOnly) =
   (\<lparr>allProducts = [], hook_isLoading = False,
      hook_error = Some (ApiFailure (ServerFailure 503))\<rparr>,
    \<lparr>memoryCache = [], localStorage = []\<rparr>)"
  by (simp add: loadProducts_def afterFailure_def getCachedProducts_def CacheService_get_def
      getFromLocalStorage_def getExpiredCachedProducts_def expiredCacheKey_def
      singletonConfig_def expiredOnly_def freshHook_def generateKey_def isExpired_def
      isVersionValid_def PRODUCTS_NAMESPACE_def PRODUCTS_CACHE_KEY_def Let_def)

end
